theory Spec2Isabelle
  imports Main
begin

section \<open>Host values: strings, ordered maps, errors\<close>

text \<open>
  The program is TypeScript. Strings are modelled as \<open>string\<close> over ASCII text, numbers that
  the code uses as counts, sizes, weights and page numbers as \<open>nat\<close> or \<open>int\<close> (whole numbers
  only), and a thrown exception as the left injection of a sum.
\<close>

datatype error = DisposedError | TypeError | RangeError | SyntaxError | TimeoutError | HookError

text \<open>\<open>\s\<close> of a regular expression and the characters removed by \<open>String.prototype.trim\<close>,
  on ASCII: tab, line feed, vertical tab, form feed, carriage return, space.\<close>

definition isSpace :: "char \<Rightarrow> bool" where
  "isSpace c = (c = CHR 0x09 \<or> c = CHR 0x0A \<or> c = CHR 0x0B \<or> c = CHR 0x0C \<or> c = CHR 0x0D \<or> c = CHR 0x20)"

definition trim :: "string \<Rightarrow> string" where
  "trim s = rev (dropWhile isSpace (rev (dropWhile isSpace s)))"

definition isUpper :: "char \<Rightarrow> bool" where
  "isUpper c = (65 \<le> (of_char c :: nat) \<and> (of_char c :: nat) \<le> 90)"

definition lowerChar :: "char \<Rightarrow> char" where
  "lowerChar c = (if isUpper c then char_of ((of_char c :: nat) + 32) else c)"

definition toLowerCase :: "string \<Rightarrow> string" where
  "toLowerCase s = map lowerChar s"

definition startsWith :: "string \<Rightarrow> string \<Rightarrow> bool" where
  "startsWith s p = (take (length p) s = p)"

definition endsWith :: "string \<Rightarrow> string \<Rightarrow> bool" where
  "endsWith s p = (length p \<le> length s \<and> drop (length s - length p) s = p)"

fun includesStr :: "string \<Rightarrow> string \<Rightarrow> bool" where
  "includesStr [] q = (q = [])"
| "includesStr (c # cs) q = (startsWith (c # cs) q \<or> includesStr cs q)"

text \<open>\<open>s.split(/sep+/).filter((w) => w.length > 0)\<close>: the maximal runs of characters that
  are not separators, in order.\<close>

fun splitRuns :: "(char \<Rightarrow> bool) \<Rightarrow> string \<Rightarrow> string \<Rightarrow> string list" where
  "splitRuns sep acc [] = (if acc = [] then [] else [rev acc])"
| "splitRuns sep acc (c # cs) =
     (if sep c then (if acc = [] then [] else [rev acc]) @ splitRuns sep [] cs
      else splitRuns sep (c # acc) cs)"

definition countWords :: "string \<Rightarrow> nat" where
  "countWords s = length (splitRuns isSpace [] s)"

text \<open>A JavaScript \<open>Map\<close> iterates in insertion order, and \<open>set\<close> on a present key keeps
  the key's position: an association list with distinct keys.\<close>

type_synonym ('k, 'v) jsmap = "('k \<times> 'v) list"

definition map_has :: "('k, 'v) jsmap \<Rightarrow> 'k \<Rightarrow> bool" where
  "map_has m k = (k \<in> set (map fst m))"

definition map_get :: "('k, 'v) jsmap \<Rightarrow> 'k \<Rightarrow> 'v option" where
  "map_get m k = map_of m k"

fun map_set :: "('k, 'v) jsmap \<Rightarrow> 'k \<Rightarrow> 'v \<Rightarrow> ('k, 'v) jsmap" where
  "map_set [] k v = [(k, v)]"
| "map_set ((k', v') # m) k v = (if k' = k then (k, v) # m else (k', v') # map_set m k v)"

definition map_delete :: "('k, 'v) jsmap \<Rightarrow> 'k \<Rightarrow> ('k, 'v) jsmap" where
  "map_delete m k = filter (\<lambda>e. fst e \<noteq> k) m"

definition map_values :: "('k, 'v) jsmap \<Rightarrow> 'v list" where
  "map_values m = map snd m"

section \<open>Documents\<close>

text \<open>A \<open>Date\<close> is observed by the code through \<open>getTime()\<close> and \<open>getFullYear()\<close> only; the
  model keeps these two readings and covers valid dates.\<close>

record js_date =
  getTime :: int
  getFullYear :: int

record article =
  id_a :: string
  title :: string
  description :: string
  content :: string
  date :: js_date
  author :: "string option"
  tags :: "string list"
  categories :: "string list"
  draft :: bool
  readingTime :: "nat option"

record ArticleFilter =
  f_tag :: "string option"
  f_category :: "string option"
  f_year :: "int option"
  f_search :: "string option"

datatype sort_order = Asc | Desc

record list_options =
  o_sort :: "sort_order option"
  o_page :: "int option"
  o_pageSize :: "int option"

record ArticleList =
  items :: "article list"
  total :: nat
  filtered :: nat

text \<open>\<open>sortArticles\<close> (utils.ts): a copy sorted by \<open>getTime()\<close> with the comparator
  \<open>timeA - timeB\<close> (ascending) or \<open>timeB - timeA\<close> (descending); \<open>Array.prototype.sort\<close> is
  stable, as \<open>sort_key\<close> is.\<close>

definition sortArticles :: "article list \<Rightarrow> sort_order \<Rightarrow> article list" where
  "sortArticles as ord =
     (case ord of Asc \<Rightarrow> sort_key (\<lambda>a. getTime (date a)) as
                | Desc \<Rightarrow> sort_key (\<lambda>a. - getTime (date a)) as)"

text \<open>\<open>filterArticles\<close> (utils.ts). A filter field applies when it is truthy: a non-empty
  string, a non-zero year.\<close>

definition truthyStr :: "string option \<Rightarrow> bool" where
  "truthyStr s = (case s of None \<Rightarrow> False | Some t \<Rightarrow> t \<noteq> [])"

definition truthyNum :: "int option \<Rightarrow> bool" where
  "truthyNum n = (case n of None \<Rightarrow> False | Some k \<Rightarrow> k \<noteq> 0)"

definition filterMatch :: "string option \<Rightarrow> string option \<Rightarrow> int option \<Rightarrow> article \<Rightarrow> bool" where
  "filterMatch tg cat yr a =
     ((truthyStr tg \<longrightarrow> the tg \<in> set (tags a)) \<and>
      (truthyStr cat \<longrightarrow> the cat \<in> set (categories a)) \<and>
      (truthyNum yr \<longrightarrow> getFullYear (date a) = the yr))"

definition filterArticles :: "article list \<Rightarrow> string option \<Rightarrow> string option \<Rightarrow> int option \<Rightarrow> article list" where
  "filterArticles as tg cat yr = filter (filterMatch tg cat yr) as"

section \<open>ArticleManager\<close>

record ArticleManagerConfig =
  includeDrafts :: bool
  defaultAuthor :: "string option"
  maxArticles :: int

record ArticleManager =
  am_articles :: "(string, article) jsmap"
  am_config :: ArticleManagerConfig
  am_disposed :: bool

text \<open>The constructor: \<open>maxArticles\<close> given and not positive is a \<open>RangeError\<close>; the default
  is 10000, drafts are excluded unless asked for.\<close>

definition new_ArticleManager :: "bool option \<Rightarrow> string option \<Rightarrow> int option \<Rightarrow> error + ArticleManager" where
  "new_ArticleManager inc auth mx =
     (case mx of
        Some n \<Rightarrow> if n \<le> 0 then Inl RangeError
                  else Inr \<lparr>am_articles = [],
                            am_config = \<lparr>includeDrafts = (inc = Some True), defaultAuthor = auth, maxArticles = n\<rparr>,
                            am_disposed = False\<rparr>
      | None \<Rightarrow> Inr \<lparr>am_articles = [],
                      am_config = \<lparr>includeDrafts = (inc = Some True), defaultAuthor = auth, maxArticles = 10000\<rparr>,
                      am_disposed = False\<rparr>)"

text \<open>\<open>addArticle\<close>: the argument is \<open>None\<close> when it is not an object with a string id. Passing
  the size limit only logs a warning.\<close>

definition ArticleManager_addArticle :: "ArticleManager \<Rightarrow> article option \<Rightarrow> error + ArticleManager" where
  "ArticleManager_addArticle m arg =
     (if am_disposed m then Inl DisposedError
      else case arg of
             None \<Rightarrow> Inl TypeError
           | Some a \<Rightarrow> Inr (m\<lparr>am_articles := map_set (am_articles m) (id_a a) a\<rparr>))"

definition ArticleManager_getArticles :: "ArticleManager \<Rightarrow> error + article list" where
  "ArticleManager_getArticles m =
     (if am_disposed m then Inl DisposedError
      else Inr (if includeDrafts (am_config m) then map_values (am_articles m)
                else filter (\<lambda>a. \<not> draft a) (map_values (am_articles m))))"

definition ArticleManager_getArticleById :: "ArticleManager \<Rightarrow> string \<Rightarrow> error + article option" where
  "ArticleManager_getArticleById m i =
     (if am_disposed m then Inl DisposedError else Inr (map_get (am_articles m) i))"

text \<open>\<open>getArticleList\<close>. The search filter keeps the documents whose title, description or
  body contains the lower-cased query. Pagination is guarded by
  \<open>options?.page && options?.pageSize\<close>; inside the guard both numbers pass through
  \<open>Math.max(1, Math.floor(_))\<close>, and \<open>slice(start, end)\<close> keeps the positions from
  \<open>start\<close> up to \<open>end\<close>.\<close>

definition searchFilter :: "string option \<Rightarrow> article list \<Rightarrow> article list" where
  "searchFilter q as =
     (if truthyStr q
      then filter (\<lambda>a. includesStr (toLowerCase (title a)) (toLowerCase (the q)) \<or>
                       includesStr (toLowerCase (description a)) (toLowerCase (the q)) \<or>
                       includesStr (toLowerCase (content a)) (toLowerCase (the q))) as
      else as)"

definition applyFilter :: "ArticleFilter option \<Rightarrow> article list \<Rightarrow> article list" where
  "applyFilter f as =
     (case f of None \<Rightarrow> as
      | Some fl \<Rightarrow> searchFilter (f_search fl) (filterArticles as (f_tag fl) (f_category fl) (f_year fl)))"

definition sortOption :: "list_options option \<Rightarrow> sort_order" where
  "sortOption opts = (case opts of None \<Rightarrow> Desc | Some o' \<Rightarrow> (case o_sort o' of None \<Rightarrow> Desc | Some s \<Rightarrow> s))"

definition pageGuard :: "list_options option \<Rightarrow> bool" where
  "pageGuard opts = (case opts of None \<Rightarrow> False | Some o' \<Rightarrow> truthyNum (o_page o') \<and> truthyNum (o_pageSize o'))"

definition paginate :: "list_options option \<Rightarrow> article list \<Rightarrow> article list" where
  "paginate opts as =
     (if pageGuard opts
      then (let page = max 1 (the (o_page (the opts)));
                pageSize = max 1 (the (o_pageSize (the opts)));
                start = (page - 1) * pageSize
            in take (nat pageSize) (drop (nat start) as))
      else as)"

definition ArticleManager_getArticleList ::
  "ArticleManager \<Rightarrow> ArticleFilter option \<Rightarrow> list_options option \<Rightarrow> error + ArticleList" where
  "ArticleManager_getArticleList m f opts =
     (case ArticleManager_getArticles m of
        Inl e \<Rightarrow> Inl e
      | Inr all \<Rightarrow>
          (let as = applyFilter f all;
               tot = length as;
               sorted = sortArticles as (sortOption opts);
               page = paginate opts sorted
           in Inr \<lparr>items = page, total = tot, filtered = length page\<rparr>))"

text \<open>\<open>getRelatedArticles\<close>: 10 points for each tag of the document that the candidate has, 15
  for each category, 5 for the same non-empty author; the positive scores in descending order
  (stable), cut to \<open>limit\<close> clamped into 1..100 (default 3).\<close>

definition relatedScore :: "article \<Rightarrow> article \<Rightarrow> nat" where
  "relatedScore a c =
     10 * length (filter (\<lambda>t. t \<in> set (tags c)) (tags a)) +
     15 * length (filter (\<lambda>t. t \<in> set (categories c)) (categories a)) +
     (if truthyStr (author a) \<and> author a = author c then 5 else 0)"

definition ArticleManager_getRelatedArticles :: "ArticleManager \<Rightarrow> string \<Rightarrow> int option \<Rightarrow> error + article list" where
  "ArticleManager_getRelatedArticles m articleId lim =
     (if am_disposed m then Inl DisposedError
      else case map_get (am_articles m) articleId of
             None \<Rightarrow> Inr []
           | Some a \<Rightarrow>
               (case ArticleManager_getArticles m of
                  Inl e \<Rightarrow> Inl e
                | Inr all \<Rightarrow>
                    (let limit = max 1 (min 100 (case lim of None \<Rightarrow> 3 | Some l \<Rightarrow> l));
                         candidates = filter (\<lambda>c. id_a c \<noteq> articleId) all;
                         scored = filter (\<lambda>c. relatedScore a c > 0) candidates
                     in Inr (take (nat limit) (sort_key (\<lambda>c. - int (relatedScore a c)) scored)))))"

text \<open>\<open>getTagStats\<close>, \<open>getCategoryStats\<close>: occurrence counts in a \<open>Map\<close>.\<close>

definition countInto :: "(string, nat) jsmap \<Rightarrow> string \<Rightarrow> (string, nat) jsmap" where
  "countInto st k = map_set st k ((case map_get st k of None \<Rightarrow> 0 | Some n \<Rightarrow> n) + 1)"

definition ArticleManager_getTagStats :: "ArticleManager \<Rightarrow> error + (string, nat) jsmap" where
  "ArticleManager_getTagStats m =
     (if am_disposed m then Inl DisposedError
      else case ArticleManager_getArticles m of
             Inl e \<Rightarrow> Inl e
           | Inr all \<Rightarrow> Inr (foldl countInto [] (concat (map tags all))))"

definition ArticleManager_getCategoryStats :: "ArticleManager \<Rightarrow> error + (string, nat) jsmap" where
  "ArticleManager_getCategoryStats m =
     (if am_disposed m then Inl DisposedError
      else case ArticleManager_getArticles m of
             Inl e \<Rightarrow> Inl e
           | Inr all \<Rightarrow> Inr (foldl countInto [] (concat (map categories all))))"

record BlogStats =
  totalArticles :: nat
  totalTags :: nat
  totalCategories :: nat
  totalWords :: nat
  averageReadingTime :: nat

text \<open>\<open>getStats\<close>. \<open>Math.round(t / n)\<close> on non-negative whole numbers is
  \<open>(2 * t + n) div (2 * n)\<close>.\<close>

definition ArticleManager_getStats :: "ArticleManager \<Rightarrow> error + BlogStats" where
  "ArticleManager_getStats m =
     (if am_disposed m then Inl DisposedError
      else case ArticleManager_getArticles m of
             Inl e \<Rightarrow> Inl e
           | Inr all \<Rightarrow>
               (case ArticleManager_getTagStats m of
                  Inl e \<Rightarrow> Inl e
                | Inr ts \<Rightarrow>
                    (case ArticleManager_getCategoryStats m of
                       Inl e \<Rightarrow> Inl e
                     | Inr cs \<Rightarrow>
                         (let words = sum_list (map (\<lambda>a. countWords (content a)) all);
                              rt = sum_list (map (\<lambda>a. case readingTime a of None \<Rightarrow> 0 | Some r \<Rightarrow> r) all);
                              n = length all
                          in Inr \<lparr>totalArticles = n, totalTags = length ts, totalCategories = length cs,
                                  totalWords = words,
                                  averageReadingTime = (if n > 0 then (2 * rt + n) div (2 * n) else 0)\<rparr>))))"

definition ArticleManager_clear :: "ArticleManager \<Rightarrow> error + ArticleManager" where
  "ArticleManager_clear m = (if am_disposed m then Inl DisposedError else Inr (m\<lparr>am_articles := []\<rparr>))"

text \<open>\<open>dispose\<close> calls \<open>clear\<close> first, which itself checks the flag.\<close>

definition ArticleManager_dispose :: "ArticleManager \<Rightarrow> error + ArticleManager" where
  "ArticleManager_dispose m =
     (case ArticleManager_clear m of Inl e \<Rightarrow> Inl e | Inr m' \<Rightarrow> Inr (m'\<lparr>am_disposed := True\<rparr>))"

text \<open>Sample data used to run the operations.\<close>

definition mkArticle :: "string \<Rightarrow> string \<Rightarrow> string \<Rightarrow> int \<Rightarrow> bool \<Rightarrow> article" where
  "mkArticle i t c d dr =
     \<lparr>id_a = i, title = t, description = [], content = c,
      date = \<lparr>getTime = d, getFullYear = 2024\<rparr>, author = None, tags = [], categories = [],
      draft = dr, readingTime = Some 1\<rparr>"

definition sampleManager :: ArticleManager where
  "sampleManager =
     \<lparr>am_articles = [(''p1'', mkArticle ''p1'' ''First'' ''one'' 100 False),
                     (''p2'', mkArticle ''p2'' ''Second'' ''two'' 300 False),
                     (''p3'', mkArticle ''p3'' ''Third'' ''three'' 200 False),
                     (''d1'', mkArticle ''d1'' ''Hidden'' ''draft text'' 400 True)],
      am_config = \<lparr>includeDrafts = False, defaultAuthor = None, maxArticles = 10000\<rparr>,
      am_disposed = False\<rparr>"

section \<open>Frontmatter (utils.ts)\<close>

text \<open>
  \<open>parseValue\<close> hands bracketed and braced values to the host's \<open>JSON.parse\<close>. The model of
  \<open>JSON.parse\<close> covers \<open>null\<close>, \<open>true\<close>, \<open>false\<close>, whole numbers of at most 15 digits, strings
  without escape sequences, arrays and objects. A text with a fraction, an exponent, a longer
  number or an escape sequence is \<open>Unmodelled\<close>: the model says nothing about it.
\<close>

datatype json = JNull | JBool bool | JNum int | JStr string | JArr "json list" | JObj "(string \<times> json) list"

datatype 'a parsed = Parsed 'a string | Malformed | Unsupported

datatype 'a outcome = Ok 'a | Throws error | Unmodelled

definition isJsonWs :: "char \<Rightarrow> bool" where
  "isJsonWs c = (c = CHR 0x20 \<or> c = CHR 0x09 \<or> c = CHR 0x0A \<or> c = CHR 0x0D)"

definition skipWs :: "string \<Rightarrow> string" where
  "skipWs s = dropWhile isJsonWs s"

definition isDigit :: "char \<Rightarrow> bool" where
  "isDigit c = (48 \<le> (of_char c :: nat) \<and> (of_char c :: nat) \<le> 57)"

definition digitVal :: "char \<Rightarrow> nat" where
  "digitVal c = (of_char c :: nat) - 48"

text \<open>\<open>parseInt(value, 10)\<close> on a string of decimal digits.\<close>

definition parseInt :: "string \<Rightarrow> nat" where
  "parseInt s = foldl (\<lambda>n c. 10 * n + digitVal c) 0 s"

fun parseJsonString :: "string \<Rightarrow> string \<Rightarrow> string parsed" where
  "parseJsonString acc [] = Malformed"
| "parseJsonString acc (c # cs) =
     (if c = CHR 0x22 then Parsed (rev acc) cs
      else if c = CHR 0x5C then Unsupported
      else if (of_char c :: nat) < 32 then Malformed
      else parseJsonString (c # acc) cs)"

text \<open>A number: an optional minus sign, then \<open>0\<close> or a digit run without a leading zero.\<close>

definition parseJsonDigits :: "string \<Rightarrow> nat parsed" where
  "parseJsonDigits s =
     (let ds = takeWhile isDigit s; rest = dropWhile isDigit s in
      if ds = [] then Malformed
      else if hd ds = CHR ''0'' \<and> length ds > 1 then Malformed
      else if rest \<noteq> [] \<and> (hd rest = CHR ''.'' \<or> hd rest = CHR ''e'' \<or> hd rest = CHR ''E'') then Unsupported
      else if length ds > 15 then Unsupported
      else Parsed (parseInt ds) rest)"

definition parseJsonNumber :: "string \<Rightarrow> json parsed" where
  "parseJsonNumber s =
     (case s of
        [] \<Rightarrow> Malformed
      | c # cs \<Rightarrow>
          if c = CHR ''-''
          then (case parseJsonDigits cs of Parsed n r \<Rightarrow> Parsed (JNum (- int n)) r
                | Malformed \<Rightarrow> Malformed | Unsupported \<Rightarrow> Unsupported)
          else (case parseJsonDigits s of Parsed n r \<Rightarrow> Parsed (JNum (int n)) r
                | Malformed \<Rightarrow> Malformed | Unsupported \<Rightarrow> Unsupported))"

text \<open>The value grammar, by recursive descent. The first argument bounds the number of nested
  calls; \<open>JSON_parse\<close> starts it high enough for the text, and running out is \<open>Unsupported\<close>.\<close>

fun parseJson :: "nat \<Rightarrow> string \<Rightarrow> json parsed"
  and parseElems :: "nat \<Rightarrow> json list \<Rightarrow> string \<Rightarrow> json list parsed"
  and parseMembers :: "nat \<Rightarrow> (string \<times> json) list \<Rightarrow> string \<Rightarrow> (string \<times> json) list parsed"
where
  "parseJson 0 s = Unsupported"
| "parseJson (Suc n) s =
     (case skipWs s of
        [] \<Rightarrow> Malformed
      | c # cs \<Rightarrow>
          if c = CHR ''['' then
            (case skipWs cs of
               [] \<Rightarrow> Malformed
             | d # ds \<Rightarrow>
                 if d = CHR '']'' then Parsed (JArr []) ds
                 else (case parseElems n [] cs of
                         Parsed vs r \<Rightarrow> Parsed (JArr vs) r
                       | Malformed \<Rightarrow> Malformed | Unsupported \<Rightarrow> Unsupported))
          else if c = CHR ''{'' then
            (case skipWs cs of
               [] \<Rightarrow> Malformed
             | d # ds \<Rightarrow>
                 if d = CHR ''}'' then Parsed (JObj []) ds
                 else (case parseMembers n [] cs of
                         Parsed ms r \<Rightarrow> Parsed (JObj ms) r
                       | Malformed \<Rightarrow> Malformed | Unsupported \<Rightarrow> Unsupported))
          else if c = CHR 0x22 then
            (case parseJsonString [] cs of
               Parsed t r \<Rightarrow> Parsed (JStr t) r
             | Malformed \<Rightarrow> Malformed | Unsupported \<Rightarrow> Unsupported)
          else if startsWith (c # cs) ''true'' then Parsed (JBool True) (drop 4 (c # cs))
          else if startsWith (c # cs) ''false'' then Parsed (JBool False) (drop 5 (c # cs))
          else if startsWith (c # cs) ''null'' then Parsed JNull (drop 4 (c # cs))
          else parseJsonNumber (c # cs))"
| "parseElems 0 acc s = Unsupported"
| "parseElems (Suc n) acc s =
     (case parseJson n s of
        Parsed v r \<Rightarrow>
          (case skipWs r of
             [] \<Rightarrow> Malformed
           | c # cs \<Rightarrow>
               if c = CHR '','' then parseElems n (v # acc) cs
               else if c = CHR '']'' then Parsed (rev (v # acc)) cs
               else Malformed)
      | Malformed \<Rightarrow> Malformed | Unsupported \<Rightarrow> Unsupported)"
| "parseMembers 0 acc s = Unsupported"
| "parseMembers (Suc n) acc s =
     (case skipWs s of
        [] \<Rightarrow> Malformed
      | q # qs \<Rightarrow>
          if q \<noteq> CHR 0x22 then Malformed
          else (case parseJsonString [] qs of
                  Parsed k r \<Rightarrow>
                    (case skipWs r of
                       [] \<Rightarrow> Malformed
                     | c # cs \<Rightarrow>
                         if c \<noteq> CHR '':'' then Malformed
                         else (case parseJson n cs of
                                 Parsed v r' \<Rightarrow>
                                   (case skipWs r' of
                                      [] \<Rightarrow> Malformed
                                    | e # es \<Rightarrow>
                                        if e = CHR '','' then parseMembers n ((k, v) # acc) es
                                        else if e = CHR ''}'' then Parsed (rev ((k, v) # acc)) es
                                        else Malformed)
                               | Malformed \<Rightarrow> Malformed | Unsupported \<Rightarrow> Unsupported))
                | Malformed \<Rightarrow> Malformed | Unsupported \<Rightarrow> Unsupported))"

definition JSON_parse :: "string \<Rightarrow> json outcome" where
  "JSON_parse s =
     (case parseJson (2 * length s + 2) s of
        Parsed v r \<Rightarrow> if skipWs r = [] then Ok v else Throws SyntaxError
      | Malformed \<Rightarrow> Throws SyntaxError
      | Unsupported \<Rightarrow> Unmodelled)"

text \<open>The values \<open>parseValue\<close> produces. A date keeps its source text.\<close>

datatype fm_value = VNull | VBool bool | VNum nat | VDate string | VJson json | VStr string

text \<open>\<open>/^\d{4}-\d{2}-\d{2}/\<close>\<close>

definition dateLike :: "string \<Rightarrow> bool" where
  "dateLike v =
     (length v \<ge> 10 \<and> list_all isDigit (take 4 v) \<and> v ! 4 = CHR ''-'' \<and>
      list_all isDigit (take 2 (drop 5 v)) \<and> v ! 7 = CHR ''-'' \<and> list_all isDigit (take 2 (drop 8 v)))"

definition parseBracketed :: "string \<Rightarrow> fm_value outcome" where
  "parseBracketed v =
     (case JSON_parse v of Ok j \<Rightarrow> Ok (VJson j) | Throws e \<Rightarrow> Ok (VStr v) | Unmodelled \<Rightarrow> Unmodelled)"

definition parseValue :: "string \<Rightarrow> fm_value outcome" where
  "parseValue v =
     (if v = [] then Ok VNull
      else if v = ''true'' then Ok (VBool True)
      else if v = ''false'' then Ok (VBool False)
      else if list_all isDigit v then (if length v \<le> 15 then Ok (VNum (parseInt v)) else Unmodelled)
      else if dateLike v then Ok (VDate v)
      else if startsWith v ''['' \<and> endsWith v '']'' then parseBracketed v
      else if startsWith v ''{'' \<and> endsWith v ''}'' then parseBracketed v
      else Ok (VStr v))"

text \<open>\<open>content.split('\n')\<close>\<close>

fun splitLines :: "string \<Rightarrow> string \<Rightarrow> string list" where
  "splitLines acc [] = [rev acc]"
| "splitLines acc (c # cs) = (if c = CHR 0x0A then rev acc # splitLines [] cs else splitLines (c # acc) cs)"

text \<open>\<open>\w\<close>: letters, digits and the underscore.\<close>

definition isWordChar :: "char \<Rightarrow> bool" where
  "isWordChar c = (isDigit c \<or> isUpper c \<or> (97 \<le> (of_char c :: nat) \<and> (of_char c :: nat) \<le> 122) \<or> c = CHR ''_'')"

text \<open>\<open>line.match(/^(\w+)\s*:\s*(.*)$/)\<close>: the key is the longest run of word characters at the
  start, white space may surround the colon, and the value runs to the end of the line; the dot
  does not match a carriage return, so a value holding one makes the match fail.\<close>

definition matchLine :: "string \<Rightarrow> (string \<times> string) option" where
  "matchLine line =
     (let key = takeWhile isWordChar line;
          rest = dropWhile isSpace (dropWhile isWordChar line)
      in if key = [] then None
         else (case rest of
                 [] \<Rightarrow> None
               | c # cs \<Rightarrow>
                   if c \<noteq> CHR '':'' then None
                   else (let v = dropWhile isSpace cs
                         in if CHR 0x0D \<in> set v then None else Some (key, v))))"

text \<open>\<open>parseFrontmatterYAML\<close>. The result is a plain object; a key \<open>__proto__\<close> would act on
  the object's prototype and is outside the model.\<close>

fun yamlLines :: "(string, fm_value) jsmap \<Rightarrow> string list \<Rightarrow> (string, fm_value) jsmap outcome" where
  "yamlLines data [] = Ok data"
| "yamlLines data (line # ls) =
     (if list_all isSpace line then yamlLines data ls
      else case matchLine line of
             None \<Rightarrow> yamlLines data ls
           | Some (key, v) \<Rightarrow>
               if v = [] then yamlLines data ls
               else if trim key = ''__proto__'' then Unmodelled
               else (case parseValue (trim v) of
                       Ok x \<Rightarrow> yamlLines (map_set data (trim key) x) ls
                     | Throws e \<Rightarrow> Throws e
                     | Unmodelled \<Rightarrow> Unmodelled))"

definition parseFrontmatterYAML :: "string \<Rightarrow> (string, fm_value) jsmap outcome" where
  "parseFrontmatterYAML s = yamlLines [] (splitLines [] s)"

text \<open>\<open>content.match(/^---\n([\s\S]*?)\n---\n([\s\S]*)$/)\<close>: after the opening line the lazy
  group ends at the first closing line.\<close>

fun splitAtFence :: "string \<Rightarrow> string \<Rightarrow> (string \<times> string) option" where
  "splitAtFence acc [] = None"
| "splitAtFence acc (c # cs) =
     (if startsWith (c # cs) [CHR 0x0A, CHR ''-'', CHR ''-'', CHR ''-'', CHR 0x0A]
      then Some (rev acc, drop 5 (c # cs))
      else splitAtFence (c # acc) cs)"

definition matchFrontmatter :: "string \<Rightarrow> (string \<times> string) option" where
  "matchFrontmatter s =
     (if startsWith s [CHR ''-'', CHR ''-'', CHR ''-'', CHR 0x0A] then splitAtFence [] (drop 4 s) else None)"

definition parseFrontmatter :: "string \<Rightarrow> ((string, fm_value) jsmap \<times> string) outcome" where
  "parseFrontmatter s =
     (if trim s = [] then Ok ([], [])
      else case matchFrontmatter s of
             None \<Rightarrow> Ok ([], s)
           | Some (fm, body) \<Rightarrow>
               (case parseFrontmatterYAML fm of
                  Ok data \<Rightarrow> Ok (data, trim body)
                | Throws e \<Rightarrow> Ok ([], s)
                | Unmodelled \<Rightarrow> Unmodelled))"

text \<open>\<open>String(_)\<close> on parsed values. An array prints its elements joined by commas, with
  \<open>null\<close> elements empty; an object prints as \<open>[object Object]\<close>.\<close>

function showNat :: "nat \<Rightarrow> string" where
  "showNat n = (if n < 10 then [char_of (48 + n)] else showNat (n div 10) @ [char_of (48 + n mod 10)])"
  by pat_completeness auto
termination
  by (relation "measure (\<lambda>n. n)") auto

fun joinWith :: "string \<Rightarrow> string list \<Rightarrow> string" where
  "joinWith sep [] = []"
| "joinWith sep [x] = x"
| "joinWith sep (x # y # ys) = x @ sep @ joinWith sep (y # ys)"

fun jsString :: "json \<Rightarrow> string" where
  "jsString JNull = ''null''"
| "jsString (JBool b) = (if b then ''true'' else ''false'')"
| "jsString (JNum i) = (if i < 0 then CHR ''-'' # showNat (nat (- i)) else showNat (nat i))"
| "jsString (JStr s) = s"
| "jsString (JArr xs) = joinWith '','' (map (\<lambda>x. if x = JNull then [] else jsString x) xs)"
| "jsString (JObj ms) = ''[object Object]''"

definition truthy :: "fm_value option \<Rightarrow> bool" where
  "truthy v =
     (case v of
        None \<Rightarrow> False
      | Some VNull \<Rightarrow> False
      | Some (VBool b) \<Rightarrow> b
      | Some (VNum n) \<Rightarrow> n \<noteq> 0
      | Some (VDate d) \<Rightarrow> True
      | Some (VJson j) \<Rightarrow> True
      | Some (VStr s) \<Rightarrow> s \<noteq> [])"

text \<open>\<open>String(v)\<close> for a truthy value; printing a \<open>Date\<close> depends on the host's time zone and
  is outside the model.\<close>

definition valueString :: "fm_value \<Rightarrow> string outcome" where
  "valueString v =
     (case v of
        VNull \<Rightarrow> Ok ''null''
      | VBool b \<Rightarrow> Ok (if b then ''true'' else ''false'')
      | VNum n \<Rightarrow> Ok (showNat n)
      | VDate d \<Rightarrow> Unmodelled
      | VJson j \<Rightarrow> Ok (jsString j)
      | VStr s \<Rightarrow> Ok s)"

text \<open>\<open>Array.isArray(x) ? x.map((t) => String(t).trim()).filter((t) => t.length > 0) : _\<close>\<close>

definition stringArray :: "fm_value option \<Rightarrow> string list option" where
  "stringArray v =
     (case v of
        Some (VJson (JArr xs)) \<Rightarrow> Some (filter (\<lambda>t. t \<noteq> []) (map (\<lambda>x. trim (jsString x)) xs))
      | _ \<Rightarrow> None)"

text \<open>
  \<open>ArticleManager.createArticleFromMarkdown\<close>. The model returns the fields of the new
  document that the frontmatter scan alone determines; the description (a markdown summary),
  the dates, author, image, metadata and reading time are left out. The method does not call
  \<open>checkDisposed\<close>.
\<close>

record created =
  c_id :: string
  c_title :: string
  c_content :: string
  c_tags :: "string list"
  c_categories :: "string list"
  c_keywords :: "string list option"
  c_draft :: bool
  c_raw :: string

definition ArticleManager_createArticleFromMarkdown :: "ArticleManager \<Rightarrow> string \<Rightarrow> string \<Rightarrow> created outcome" where
  "ArticleManager_createArticleFromMarkdown m i src =
     (if trim i = [] then Throws TypeError
      else case parseFrontmatter src of
             Throws e \<Rightarrow> Throws e
           | Unmodelled \<Rightarrow> Unmodelled
           | Ok (data, body) \<Rightarrow>
               (case (if truthy (map_get data ''title'') then valueString (the (map_get data ''title'')) else Ok i) of
                  Throws e \<Rightarrow> Throws e
                | Unmodelled \<Rightarrow> Unmodelled
                | Ok t \<Rightarrow>
                    Ok \<lparr>c_id = i,
                        c_title = (if trim t = [] then i else trim t),
                        c_content = body,
                        c_tags = (case stringArray (map_get data ''tags'') of None \<Rightarrow> [] | Some ts \<Rightarrow> ts),
                        c_categories = (case stringArray (map_get data ''categories'') of None \<Rightarrow> [] | Some cs \<Rightarrow> cs),
                        c_keywords = stringArray (map_get data ''keywords''),
                        c_draft = (map_get data ''draft'' = Some (VBool True)),
                        c_raw = src\<rparr>))"

definition roundTripSource :: string where
  "roundTripSource = ''---\<newline>title: Hello\<newline>tags: [x,y]\<newline>---\<newline>Body text''"

definition roundTripJson :: string where
  "roundTripJson = ''---\<newline>title: Hello\<newline>tags: [\"x\",\"y\"]\<newline>---\<newline>Body text''"

section \<open>MemoryCache (cache.ts)\<close>

text \<open>Every operation that reads the clock takes the reading of \<open>Date.now()\<close> as its argument
  \<open>now\<close>, in milliseconds.\<close>

datatype EvictionPolicy = LRU | LFU | FIFO

record 'v CacheEntry =
  e_value :: 'v
  expiresAt :: int
  createdAt :: int
  hits :: nat

record 'v MemoryCache =
  cache :: "(string, 'v CacheEntry) jsmap"
  stats_hits :: nat
  stats_misses :: nat
  defaultExpireMs :: int
  maxSize :: int
  evictionPolicy :: EvictionPolicy

definition new_MemoryCache :: "int option \<Rightarrow> int option \<Rightarrow> EvictionPolicy option \<Rightarrow> 'v MemoryCache" where
  "new_MemoryCache expire mx pol =
     \<lparr>cache = [], stats_hits = 0, stats_misses = 0,
      defaultExpireMs = (case expire of None \<Rightarrow> 3600000 | Some e \<Rightarrow> e),
      maxSize = (case mx of None \<Rightarrow> 1000 | Some n \<Rightarrow> n),
      evictionPolicy = (case pol of None \<Rightarrow> LRU | Some p \<Rightarrow> p)\<rparr>"

definition MemoryCache_get :: "'v MemoryCache \<Rightarrow> int \<Rightarrow> string \<Rightarrow> 'v MemoryCache \<times> 'v option" where
  "MemoryCache_get c now key =
     (case map_get (cache c) key of
        None \<Rightarrow> (c\<lparr>stats_misses := stats_misses c + 1\<rparr>, None)
      | Some e \<Rightarrow>
          if expiresAt e < now
          then (c\<lparr>cache := map_delete (cache c) key, stats_misses := stats_misses c + 1\<rparr>, None)
          else (c\<lparr>cache := map_set (cache c) key (e\<lparr>hits := hits e + 1\<rparr>),
                  stats_hits := stats_hits c + 1\<rparr>, Some (e_value e)))"

text \<open>The three scans of \<open>evict\<close>. Each keeps the best reading so far and the key it belongs to,
  and moves on a strictly smaller reading only. The LRU and FIFO scans start from
  \<open>Date.now()\<close>, the LFU scan from \<open>Infinity\<close> (here \<open>None\<close>).\<close>

fun scanBelow :: "('v CacheEntry \<Rightarrow> int) \<Rightarrow> int \<Rightarrow> string option \<Rightarrow> (string, 'v CacheEntry) jsmap \<Rightarrow> string option" where
  "scanBelow f best key [] = key"
| "scanBelow f best key ((k, e) # es) =
     (if f e < best then scanBelow f (f e) (Some k) es else scanBelow f best key es)"

fun scanHits :: "nat option \<Rightarrow> string option \<Rightarrow> (string, 'v CacheEntry) jsmap \<Rightarrow> string option" where
  "scanHits lowest key [] = key"
| "scanHits lowest key ((k, e) # es) =
     (if (case lowest of None \<Rightarrow> True | Some l \<Rightarrow> hits e < l)
      then scanHits (Some (hits e)) (Some k) es
      else scanHits lowest key es)"

definition keyToEvict :: "'v MemoryCache \<Rightarrow> int \<Rightarrow> string option" where
  "keyToEvict c now =
     (case evictionPolicy c of
        LRU \<Rightarrow> scanBelow expiresAt now None (cache c)
      | LFU \<Rightarrow> scanHits None None (cache c)
      | FIFO \<Rightarrow> scanBelow createdAt now None (cache c))"

text \<open>\<open>if (keyToEvict)\<close> is false for \<open>undefined\<close> and for the empty string.\<close>

definition evict :: "'v MemoryCache \<Rightarrow> int \<Rightarrow> 'v MemoryCache" where
  "evict c now =
     (if cache c = [] then c
      else case keyToEvict c now of
             None \<Rightarrow> c
           | Some k \<Rightarrow> if k = [] then c else c\<lparr>cache := map_delete (cache c) k\<rparr>)"

definition MemoryCache_set :: "'v MemoryCache \<Rightarrow> int \<Rightarrow> string \<Rightarrow> 'v \<Rightarrow> int option \<Rightarrow> 'v MemoryCache" where
  "MemoryCache_set c now key v expireMs =
     (let c' = (if int (length (cache c)) \<ge> maxSize c \<and> \<not> map_has (cache c) key then evict c now else c)
      in c'\<lparr>cache := map_set (cache c') key
                 \<lparr>e_value = v,
                  expiresAt = now + (case expireMs of None \<Rightarrow> defaultExpireMs c | Some x \<Rightarrow> x),
                  createdAt = now, hits = 0\<rparr>\<rparr>)"

definition MemoryCache_has :: "'v MemoryCache \<Rightarrow> int \<Rightarrow> string \<Rightarrow> 'v MemoryCache \<times> bool" where
  "MemoryCache_has c now key =
     (case map_get (cache c) key of
        None \<Rightarrow> (c, False)
      | Some e \<Rightarrow> if expiresAt e < now then (c\<lparr>cache := map_delete (cache c) key\<rparr>, False) else (c, True))"

definition MemoryCache_delete :: "'v MemoryCache \<Rightarrow> string \<Rightarrow> 'v MemoryCache" where
  "MemoryCache_delete c key = c\<lparr>cache := map_delete (cache c) key\<rparr>"

definition MemoryCache_clear :: "'v MemoryCache \<Rightarrow> 'v MemoryCache" where
  "MemoryCache_clear c = c\<lparr>cache := [], stats_hits := 0, stats_misses := 0\<rparr>"

definition MemoryCache_size :: "'v MemoryCache \<Rightarrow> nat" where
  "MemoryCache_size c = length (cache c)"

definition keysOf :: "'v MemoryCache \<Rightarrow> string list" where
  "keysOf c = map fst (cache c)"

text \<open>Three insertions into a cache of capacity 2, at the given clock readings.\<close>

definition insertABC :: "EvictionPolicy \<Rightarrow> int \<Rightarrow> int \<Rightarrow> int \<Rightarrow> nat MemoryCache" where
  "insertABC pol t1 t2 t3 =
     MemoryCache_set
       (MemoryCache_set
          (MemoryCache_set (new_MemoryCache None (Some 2) (Some pol)) t1 ''A'' 1 None)
          t2 ''B'' 2 None)
       t3 ''C'' 3 None"

definition insertABgetAC :: "EvictionPolicy \<Rightarrow> int \<Rightarrow> int \<Rightarrow> int \<Rightarrow> int \<Rightarrow> nat MemoryCache" where
  "insertABgetAC pol t1 t2 t3 t4 =
     MemoryCache_set
       (fst (MemoryCache_get
          (MemoryCache_set
             (MemoryCache_set (new_MemoryCache None (Some 2) (Some pol)) t1 ''A'' 1 None)
             t2 ''B'' 2 None)
          t3 ''A''))
       t4 ''C'' 3 None"

section \<open>PluginManager (PluginManager.ts)\<close>

text \<open>
  A call into plugin code either throws at once, or hands back a value or a promise. The model
  records what the call does and when: \<open>Resolved t v\<close> settles with \<open>v\<close> after \<open>t\<close>
  milliseconds (\<open>t = 0\<close> for a plain value or an already settled promise), \<open>Rejected t\<close> rejects
  after \<open>t\<close> milliseconds, \<open>Thrown\<close> throws synchronously, \<open>Pending\<close> never settles.
\<close>

datatype 'a async = Resolved nat 'a | Rejected nat | Thrown | Pending

text \<open>\<open>setTimeout\<close> of the host: a delay below 1 or above \<open>2^31 - 1\<close> milliseconds is run
  after 1 millisecond.\<close>

definition timerDelay :: "int \<Rightarrow> int" where
  "timerDelay timeoutMs = (if timeoutMs < 1 \<or> 2147483647 < timeoutMs then 1 else timeoutMs)"

text \<open>\<open>withTimeout\<close> races the promise against a timer of \<open>timeoutMs\<close>. Every caller writes
  \<open>withTimeout(Promise.resolve(call(...)), ...)\<close>: the call into plugin code runs first, so
  whatever timer it starts is older than the one \<open>withTimeout\<close> starts, and the host runs timers
  that are due together oldest first. The promise therefore wins when it settles no later than
  the timer's delay; a promise that is already settled always wins.\<close>

definition beats :: "nat \<Rightarrow> int \<Rightarrow> bool" where
  "beats t timeoutMs = (int t \<le> timerDelay timeoutMs)"

definition withTimeout :: "'a async \<Rightarrow> int \<Rightarrow> error + 'a" where
  "withTimeout p timeoutMs =
     (case p of
        Resolved t v \<Rightarrow> if beats t timeoutMs then Inr v else Inl TimeoutError
      | Rejected t \<Rightarrow> if beats t timeoutMs then Inl HookError else Inl TimeoutError
      | Thrown \<Rightarrow> Inl HookError
      | Pending \<Rightarrow> Inl TimeoutError)"

text \<open>What a processor hands back: something that is not an object, or an object read as a
  document; an object whose \<open>id\<close> is missing or otherwise falsy has the empty id here.\<close>

datatype proc_value = NotAnObject | AnObject article

text \<open>A processor is handed the document object itself, not a copy, and may write to it
  before it throws, settles or is timed out. The first component is the object as it stands
  when the stage ends, the second what the call hands back. What a timed-out processor writes
  after its stage has ended is not part of the model. A search extension is handed the array
  of documents in the same way.\<close>

type_synonym processor = "article \<Rightarrow> article \<times> proc_value async"

type_synonym extension = "string \<Rightarrow> article list \<Rightarrow> article list \<times> article list option async"

text \<open>The calls an activation hook makes on its context, in order, before it settles; the
  argument is \<open>None\<close> when it is not a function.\<close>

datatype context_call = RegisterArticleProcessor "processor option" | RegisterSearchExtension "extension option"

record Plugin =
  p_name :: string
  p_version :: string
  activate_calls :: "context_call list"
  activate :: "unit async"
  deactivate :: "unit async option"

record PluginManager =
  pm_plugins :: "(string, Plugin) jsmap"
  pm_activePlugins :: "string list"
  pm_articleProcessors :: "(string \<times> processor) list"
  pm_searchExtensions :: "(string \<times> extension) list"
  pm_timeout :: int
  pm_maxProcessors :: int
  pm_disposed :: bool

definition new_PluginManager :: "int option \<Rightarrow> int option \<Rightarrow> PluginManager" where
  "new_PluginManager tmo mx =
     \<lparr>pm_plugins = [], pm_activePlugins = [], pm_articleProcessors = [], pm_searchExtensions = [],
      pm_timeout = (case tmo of None \<Rightarrow> 10000 | Some t \<Rightarrow> t),
      pm_maxProcessors = (case mx of None \<Rightarrow> 100 | Some n \<Rightarrow> n),
      pm_disposed = False\<rparr>"

text \<open>\<open>this.config.timeout || 10000\<close> and \<open>this.config.maxProcessors || 100\<close>\<close>

definition deadline :: "PluginManager \<Rightarrow> int" where
  "deadline m = (if pm_timeout m = 0 then 10000 else pm_timeout m)"

definition processorLimit :: "PluginManager \<Rightarrow> int" where
  "processorLimit m = (if pm_maxProcessors m = 0 then 100 else pm_maxProcessors m)"

definition PluginManager_registerArticleProcessor ::
  "PluginManager \<Rightarrow> string \<Rightarrow> processor option \<Rightarrow> error + PluginManager" where
  "PluginManager_registerArticleProcessor m pluginName fn =
     (if pm_disposed m then Inl DisposedError
      else case fn of
             None \<Rightarrow> Inl TypeError
           | Some f \<Rightarrow>
               if int (length (pm_articleProcessors m)) \<ge> processorLimit m then Inr m
               else Inr (m\<lparr>pm_articleProcessors := pm_articleProcessors m @ [(pluginName, f)]\<rparr>))"

definition PluginManager_registerSearchExtension ::
  "PluginManager \<Rightarrow> string \<Rightarrow> extension option \<Rightarrow> error + PluginManager" where
  "PluginManager_registerSearchExtension m pluginName fn =
     (if pm_disposed m then Inl DisposedError
      else case fn of
             None \<Rightarrow> Inl TypeError
           | Some f \<Rightarrow>
               if int (length (pm_searchExtensions m)) \<ge> processorLimit m then Inr m
               else Inr (m\<lparr>pm_searchExtensions := pm_searchExtensions m @ [(pluginName, f)]\<rparr>))"

text \<open>The synchronous part of \<open>plugin.activate(context)\<close>: the context calls run in order; one
  that throws ends the hook with that exception, the earlier registrations staying in place.\<close>

fun runCalls :: "PluginManager \<Rightarrow> string \<Rightarrow> context_call list \<Rightarrow> PluginManager \<times> error option" where
  "runCalls m name [] = (m, None)"
| "runCalls m name (RegisterArticleProcessor fn # cs) =
     (case PluginManager_registerArticleProcessor m name fn of
        Inl e \<Rightarrow> (m, Some e)
      | Inr m' \<Rightarrow> runCalls m' name cs)"
| "runCalls m name (RegisterSearchExtension fn # cs) =
     (case PluginManager_registerSearchExtension m name fn of
        Inl e \<Rightarrow> (m, Some e)
      | Inr m' \<Rightarrow> runCalls m' name cs)"

text \<open>\<open>registerPlugin\<close>. The argument is \<open>None\<close> when \<open>validatePlugin\<close> rejects it. The result
  pairs the manager afterwards with the error the returned promise rejects with, if any.\<close>

definition PluginManager_registerPlugin :: "PluginManager \<Rightarrow> Plugin option \<Rightarrow> PluginManager \<times> error option" where
  "PluginManager_registerPlugin m arg =
     (if pm_disposed m then (m, Some DisposedError)
      else case arg of
             None \<Rightarrow> (m, Some TypeError)
           | Some p \<Rightarrow>
               if map_has (pm_plugins m) (p_name p) then (m, None)
               else (case runCalls m (p_name p) (activate_calls p) of
                       (m', Some e) \<Rightarrow> (m', Some e)
                     | (m', None) \<Rightarrow>
                         (case withTimeout (activate p) (deadline m') of
                            Inl e \<Rightarrow> (m', Some e)
                          | Inr u \<Rightarrow>
                              (m'\<lparr>pm_plugins := map_set (pm_plugins m') (p_name p) p,
                                  pm_activePlugins :=
                                    (if p_name p \<in> set (pm_activePlugins m') then pm_activePlugins m'
                                     else pm_activePlugins m' @ [p_name p])\<rparr>, None))))"

definition PluginManager_unregisterPlugin :: "PluginManager \<Rightarrow> string \<Rightarrow> PluginManager \<times> error option" where
  "PluginManager_unregisterPlugin m name =
     (if pm_disposed m then (m, Some DisposedError)
      else if trim name = [] then (m, Some TypeError)
      else case map_get (pm_plugins m) name of
             None \<Rightarrow> (m, None)
           | Some p \<Rightarrow>
               (case (case deactivate p of None \<Rightarrow> Inr () | Some d \<Rightarrow> withTimeout d (deadline m)) of
                  Inl e \<Rightarrow> (m, Some e)
                | Inr u \<Rightarrow>
                    (m\<lparr>pm_plugins := map_delete (pm_plugins m) name,
                       pm_activePlugins := filter (\<lambda>n. n \<noteq> name) (pm_activePlugins m),
                       pm_articleProcessors := filter (\<lambda>p. fst p \<noteq> name) (pm_articleProcessors m),
                       pm_searchExtensions := filter (\<lambda>p. fst p \<noteq> name) (pm_searchExtensions m)\<rparr>, None)))"

text \<open>One stage of \<open>processArticle\<close>: the processor's result replaces the document when the
  call neither throws nor rejects nor loses the race and \<open>result && typeof result === 'object'
  && result.id\<close> holds; otherwise the stage is skipped and \<open>processed\<close> stays the object the
  processor was handed, with whatever the processor wrote to it.\<close>

definition accepted :: "int \<Rightarrow> processor \<Rightarrow> article \<Rightarrow> article option" where
  "accepted timeoutMs f d =
     (case withTimeout (snd (f d)) timeoutMs of
        Inl e \<Rightarrow> None
      | Inr NotAnObject \<Rightarrow> None
      | Inr (AnObject r) \<Rightarrow> if id_a r \<noteq> [] then Some r else None)"

fun runProcessors :: "int \<Rightarrow> (string \<times> processor) list \<Rightarrow> article \<Rightarrow> article" where
  "runProcessors timeoutMs [] processed = processed"
| "runProcessors timeoutMs ((n, f) # ps) processed =
     (case accepted timeoutMs f processed of
        Some r \<Rightarrow> runProcessors timeoutMs ps r
      | None \<Rightarrow> runProcessors timeoutMs ps (fst (f processed)))"

text \<open>\<open>processArticle\<close>; the argument is \<open>None\<close> when it is not an object with a string id.\<close>

definition PluginManager_processArticle :: "PluginManager \<Rightarrow> article option \<Rightarrow> error + article" where
  "PluginManager_processArticle m arg =
     (if pm_disposed m then Inl DisposedError
      else case arg of
             None \<Rightarrow> Inl TypeError
           | Some a \<Rightarrow> Inr (runProcessors (deadline m) (pm_articleProcessors m) a))"

fun runExtensions :: "int \<Rightarrow> (string \<times> extension) list \<Rightarrow> string \<Rightarrow> article list \<Rightarrow> article list list" where
  "runExtensions timeoutMs [] q as = []"
| "runExtensions timeoutMs ((n, f) # es) q as =
     (case withTimeout (snd (f q as)) timeoutMs of
        Inr (Some r) \<Rightarrow> r # runExtensions timeoutMs es q (fst (f q as))
      | _ \<Rightarrow> runExtensions timeoutMs es q (fst (f q as)))"

text \<open>\<open>executeSearchExtensions\<close>; an argument is \<open>None\<close> when it is not a string, or not an
  array.\<close>

definition PluginManager_executeSearchExtensions ::
  "PluginManager \<Rightarrow> string option \<Rightarrow> article list option \<Rightarrow> error + article list list" where
  "PluginManager_executeSearchExtensions m query arts =
     (if pm_disposed m then Inl DisposedError
      else case query of
             None \<Rightarrow> Inr []
           | Some q \<Rightarrow>
               (case arts of
                  None \<Rightarrow> Inr []
                | Some as \<Rightarrow> Inr (runExtensions (deadline m) (pm_searchExtensions m) q as)))"

definition PluginManager_getPlugins :: "PluginManager \<Rightarrow> error + Plugin list" where
  "PluginManager_getPlugins m = (if pm_disposed m then Inl DisposedError else Inr (map_values (pm_plugins m)))"

definition PluginManager_getActivePlugins :: "PluginManager \<Rightarrow> error + string list" where
  "PluginManager_getActivePlugins m = (if pm_disposed m then Inl DisposedError else Inr (pm_activePlugins m))"

definition PluginManager_getPluginInfo :: "PluginManager \<Rightarrow> string \<Rightarrow> error + Plugin option" where
  "PluginManager_getPluginInfo m name =
     (if pm_disposed m then Inl DisposedError else Inr (map_get (pm_plugins m) name))"

record ProcessorStats =
  totalProcessors :: nat
  totalSearchExtensions :: nat
  processorsByPlugin :: "(string, nat) jsmap"

definition PluginManager_getProcessorStats :: "PluginManager \<Rightarrow> error + ProcessorStats" where
  "PluginManager_getProcessorStats m =
     (if pm_disposed m then Inl DisposedError
      else Inr \<lparr>totalProcessors = length (pm_articleProcessors m),
                totalSearchExtensions = length (pm_searchExtensions m),
                processorsByPlugin = foldl countInto [] (map fst (pm_articleProcessors m))\<rparr>)"

text \<open>\<open>cleanup\<close> unregisters every active plugin, swallowing failures, and empties both
  chains; it does not look at the disposed flag itself. \<open>dispose\<close> returns at once when the
  flag is already set.\<close>

fun unregisterAll :: "PluginManager \<Rightarrow> string list \<Rightarrow> PluginManager" where
  "unregisterAll m [] = m"
| "unregisterAll m (n # ns) = unregisterAll (fst (PluginManager_unregisterPlugin m n)) ns"

definition PluginManager_cleanup :: "PluginManager \<Rightarrow> PluginManager" where
  "PluginManager_cleanup m =
     (unregisterAll m (pm_activePlugins m))\<lparr>pm_articleProcessors := [], pm_searchExtensions := []\<rparr>"

definition PluginManager_dispose :: "PluginManager \<Rightarrow> PluginManager \<times> error option" where
  "PluginManager_dispose m =
     (if pm_disposed m then (m, None) else ((PluginManager_cleanup m)\<lparr>pm_disposed := True\<rparr>, None))"


definition hangingProcessor :: processor where
  "hangingProcessor = (\<lambda>a. (a, Pending))"

definition titleProcessor :: processor where
  "titleProcessor = (\<lambda>a. (a, Resolved 0 (AnObject (a\<lparr>title := title a @ ''!''\<rparr>))))"



definition tieProcessor :: processor where
  "tieProcessor = (\<lambda>a. (a, Resolved 10000 (AnObject (a\<lparr>title := title a @ ''?''\<rparr>))))"

definition samplePlugin :: "unit async \<Rightarrow> Plugin" where
  "samplePlugin act =
     \<lparr>p_name = ''slow'', p_version = ''1.0.0'',
      activate_calls = [RegisterArticleProcessor (Some titleProcessor)],
      activate = act, deactivate = None\<rparr>"

definition chainManager :: "(string \<times> processor) list \<Rightarrow> PluginManager" where
  "chainManager ps = (new_PluginManager None None)\<lparr>pm_articleProcessors := ps\<rparr>"

definition sampleDoc :: article where
  "sampleDoc = mkArticle ''a'' ''Title'' ''body'' 0 False"


definition patientManager :: PluginManager where
  "patientManager = new_PluginManager (Some 3000000000) None"

text \<open>The names of the registered plugins and of the active ones agree in every state the
  manager reaches.\<close>

definition registryConsistent :: "PluginManager \<Rightarrow> bool" where
  "registryConsistent m = (set (pm_activePlugins m) = fst ` set (pm_plugins m))"

section \<open>SearchEngine (SearchEngine.ts)\<close>

record SearchIndex =
  id_p :: string
  articleId :: string
  content_p :: string
  excerpt :: string
  weight :: nat

record SearchResult =
  r_article :: article
  score :: nat
  highlights :: "string list"

record SearchEngineConfig =
  minSearchLength :: int
  highlightTag :: "string \<times> string"
  caseSensitive :: bool
  maxResults :: int
  maxQueryLength :: int
  maxIndexSize :: int

record SearchEngine =
  se_index :: "(string, SearchIndex list) jsmap"
  se_articles :: "(string, article) jsmap"
  se_config :: SearchEngineConfig
  se_disposed :: bool




text \<open>\<open>x || d\<close> on a number.\<close>

definition orElse :: "int \<Rightarrow> int \<Rightarrow> int" where
  "orElse x d = (if x = 0 then d else x)"

text \<open>\<open>validateString\<close> on a string: cut to \<open>maxQueryLength\<close> when longer than
  \<open>maxQueryLength || 500\<close>.\<close>

definition validateString :: "SearchEngineConfig \<Rightarrow> string \<Rightarrow> string" where
  "validateString cfg str =
     (if int (length str) > orElse (maxQueryLength cfg) 500 then take (nat (maxQueryLength cfg)) str else str)"

text \<open>\<open>\p{P}\<close> on ASCII: \<open>! " # % & ' ( ) * , - . / : ; ? @ [ \ ] _ { }\<close>.\<close>

definition isPunct :: "char \<Rightarrow> bool" where
  "isPunct c = ((of_char c :: nat) \<in> {33, 34, 35, 37, 38, 39, 40, 41, 42, 44, 45, 46, 47, 58, 59, 63, 64,
                                       91, 92, 93, 95, 123, 125})"

definition isSeparator :: "char \<Rightarrow> bool" where
  "isSeparator c = (isSpace c \<or> isPunct c)"

text \<open>\<open>[...new Set(words)]\<close>: the first occurrence of each word, in order.\<close>

definition uniq :: "'a list \<Rightarrow> 'a list" where
  "uniq xs = rev (remdups (rev xs))"

definition tokenize :: "SearchEngineConfig \<Rightarrow> string \<Rightarrow> string list" where
  "tokenize cfg text =
     (if text = [] then []
      else uniq (take 50 (filter (\<lambda>w. length w < 100)
                   (splitRuns isSeparator [] (if caseSensitive cfg then text else toLowerCase text)))))"

text \<open>One pass of the inner loop of \<open>indexArticle\<close>: a new posting for the word and the
  document, or the weight of the existing one raised, with the ceiling of 1000.\<close>

fun bumpFirst :: "string \<Rightarrow> nat \<Rightarrow> SearchIndex list \<Rightarrow> SearchIndex list" where
  "bumpFirst aid k [] = []"
| "bumpFirst aid k (p # ps) =
     (if articleId p = aid then p\<lparr>weight := min (weight p + k) 1000\<rparr> # ps else p # bumpFirst aid k ps)"

definition addPosting :: "string \<Rightarrow> string \<Rightarrow> nat \<Rightarrow> (string, SearchIndex list) jsmap \<Rightarrow> string \<Rightarrow>
    (string, SearchIndex list) jsmap" where
  "addPosting aid c k idx word =
     (let its = (case map_get idx word of None \<Rightarrow> [] | Some ps \<Rightarrow> ps)
      in if aid \<in> set (map articleId its) then map_set idx word (bumpFirst aid k its)
         else map_set idx word
                (its @ [\<lparr>id_p = aid @ '':'' @ word, articleId = aid, content_p = take 200 c,
                         excerpt = take 100 c, weight = k\<rparr>]))"

text \<open>The five weighted fields of a document.\<close>

definition indexItems :: "SearchEngineConfig \<Rightarrow> article \<Rightarrow> (string \<times> nat) list" where
  "indexItems cfg a =
     [(validateString cfg (title a), 10),
      (validateString cfg (description a), 5),
      (joinWith '' '' (tags a), 4),
      (joinWith '' '' (categories a), 4),
      (validateString cfg (content a), 1)]"

definition addItem :: "SearchEngineConfig \<Rightarrow> string \<Rightarrow> (string, SearchIndex list) jsmap \<Rightarrow> string \<times> nat \<Rightarrow>
    (string, SearchIndex list) jsmap" where
  "addItem cfg aid idx item =
     (if fst item = [] then idx else foldl (addPosting aid (fst item) (snd item)) idx (tokenize cfg (fst item)))"

text \<open>\<open>indexArticle\<close> throws on a document without id, title or body (\<open>None\<close>).\<close>

definition indexArticle :: "SearchEngineConfig \<Rightarrow> (string, SearchIndex list) jsmap \<Rightarrow> article \<Rightarrow>
    (string, SearchIndex list) jsmap option" where
  "indexArticle cfg idx a =
     (if id_a a = [] \<or> title a = [] \<or> content a = [] then None
      else Some (foldl (addItem cfg (id_a a)) idx (indexItems cfg a)))"

text \<open>An element of the array given to \<open>indexArticles\<close>: not an object, an object without a
  string id, or a document.\<close>

datatype js_doc = NotObject | NoStringId | Doc article

fun indexLoop :: "SearchEngineConfig \<Rightarrow> (string, SearchIndex list) jsmap \<times> (string, article) jsmap \<Rightarrow> js_doc list \<Rightarrow>
    (string, SearchIndex list) jsmap \<times> (string, article) jsmap" where
  "indexLoop cfg st [] = st"
| "indexLoop cfg st (NotObject # ds) = indexLoop cfg st ds"
| "indexLoop cfg st (NoStringId # ds) = indexLoop cfg st ds"
| "indexLoop cfg st (Doc a # ds) =
     (case indexArticle cfg (fst st) a of
        None \<Rightarrow> indexLoop cfg st ds
      | Some idx \<Rightarrow>
          if int (length idx) > orElse (maxIndexSize cfg) 100000
          then (idx, map_set (snd st) (id_a a) a)
          else indexLoop cfg (idx, map_set (snd st) (id_a a) a) ds)"

text \<open>\<open>indexArticles\<close>; the argument is \<open>None\<close> when it is not an array.\<close>

definition SearchEngine_indexArticles :: "SearchEngine \<Rightarrow> js_doc list option \<Rightarrow> error + SearchEngine" where
  "SearchEngine_indexArticles s arg =
     (if se_disposed s then Inl DisposedError
      else case arg of
             None \<Rightarrow> Inr s
           | Some ds \<Rightarrow>
               Inr (s\<lparr>se_index := fst (indexLoop (se_config s) ([], []) ds),
                      se_articles := snd (indexLoop (se_config s) ([], []) ds)\<rparr>))"

text \<open>\<open>searchIndex\<close>: the first 100 postings of the keyword itself, then the first 50
  postings of each of the first 50 other terms that start with it, in index order.\<close>

fun prefixScan :: "string \<Rightarrow> nat \<Rightarrow> (string, SearchIndex list) jsmap \<Rightarrow> SearchIndex list" where
  "prefixScan keyword prefixCount [] = []"
| "prefixScan keyword prefixCount ((key, its) # rest) =
     (if prefixCount \<ge> 50 then []
      else if startsWith key keyword \<and> key \<noteq> keyword
           then take 50 its @ prefixScan keyword (prefixCount + 1) rest
           else prefixScan keyword prefixCount rest)"

definition searchIndex :: "(string, SearchIndex list) jsmap \<Rightarrow> string \<Rightarrow> SearchIndex list" where
  "searchIndex idx keyword =
     (if keyword = [] then []
      else (case map_get idx keyword of None \<Rightarrow> [] | Some its \<Rightarrow> take 100 its) @ prefixScan keyword 0 idx)"

text \<open>\<open>escapeRegex\<close> puts a backslash before each character of its table; the pattern then
  matches the keyword literally, and the flag \<open>i\<close> ignores case.\<close>

definition isRegexSpecial :: "char \<Rightarrow> bool" where
  "isRegexSpecial c = (c \<in> set ''.*+?^${}()|[]'' \<or> c = CHR 0x5C)"

definition escapeRegex :: "string \<Rightarrow> string" where
  "escapeRegex str = concat (map (\<lambda>c. if isRegexSpecial c then [CHR 0x5C, c] else [c]) str)"

definition matchesAt :: "string \<Rightarrow> string \<Rightarrow> bool" where
  "matchesAt keyword s = (length keyword \<le> length s \<and> toLowerCase (take (length keyword) s) = toLowerCase keyword)"

function wrapMatches :: "string \<times> string \<Rightarrow> string \<Rightarrow> nat \<Rightarrow> string \<Rightarrow> string" where
  "wrapMatches tag keyword count [] = []"
| "wrapMatches tag keyword count (c # cs) =
     (if keyword \<noteq> [] \<and> matchesAt keyword (c # cs)
      then (if count + 1 > 100 then take (length keyword) (c # cs)
            else fst tag @ take (length keyword) (c # cs) @ snd tag)
           @ wrapMatches tag keyword (count + 1) (drop (length keyword) (c # cs))
      else c # wrapMatches tag keyword count cs)"
  by pat_completeness auto
termination
  by (relation "measure (\<lambda>(tag, keyword, count, s). length s)") auto

definition highlightMatch :: "SearchEngineConfig \<Rightarrow> string \<Rightarrow> string \<Rightarrow> string" where
  "highlightMatch cfg c keyword =
     (if keyword = [] \<or> c = [] then c
      else if length (escapeRegex keyword) > 100 then c
      else wrapMatches (highlightTag cfg) keyword 0 c)"

text \<open>The result map of \<open>search\<close>: per document id the summed weight and the set of highlight
  strings, in insertion order.\<close>

definition addHit :: "SearchEngineConfig \<Rightarrow> string \<Rightarrow> (string, nat \<times> string list) jsmap \<Rightarrow> SearchIndex \<Rightarrow>
    (string, nat \<times> string list) jsmap" where
  "addHit cfg keyword rm item =
     (let old = (case map_get rm (articleId item) of None \<Rightarrow> (0, []) | Some r \<Rightarrow> r);
          h = highlightMatch cfg (content_p item) keyword
      in map_set rm (articleId item)
           (fst old + weight item, if h \<noteq> [] \<and> h \<notin> set (snd old) then snd old @ [h] else snd old))"

definition addKeyword :: "SearchEngine \<Rightarrow> (string, nat \<times> string list) jsmap \<Rightarrow> string \<Rightarrow>
    (string, nat \<times> string list) jsmap" where
  "addKeyword s rm keyword = foldl (addHit (se_config s) keyword) rm (searchIndex (se_index s) keyword)"

definition resultMap :: "SearchEngine \<Rightarrow> string list \<Rightarrow> (string, nat \<times> string list) jsmap" where
  "resultMap s keywords = foldl (addKeyword s) [] keywords"

fun hydrate :: "(string, article) jsmap \<Rightarrow> (string, nat \<times> string list) jsmap \<Rightarrow> SearchResult list" where
  "hydrate arts [] = []"
| "hydrate arts ((aid, r) # rm) =
     (case map_get arts aid of
        None \<Rightarrow> hydrate arts rm
      | Some a \<Rightarrow> \<lparr>r_article = a, score = fst r, highlights = take 10 (snd r)\<rparr> # hydrate arts rm)"

text \<open>The part of \<open>search\<close> after the input checks: tokenize, collect, sort by descending
  score (stable), cut to \<open>Math.max(1, maxResults || 20)\<close>.\<close>

definition searchValidated :: "SearchEngine \<Rightarrow> string \<Rightarrow> SearchResult list" where
  "searchValidated s validatedQuery =
     (if validatedQuery = [] then []
      else let keywords = tokenize (se_config s) validatedQuery
           in if keywords = [] then []
              else take (nat (max 1 (orElse (maxResults (se_config s)) 20)))
                     (sort_key (\<lambda>r. - int (score r)) (hydrate (se_articles s) (resultMap s keywords))))"

text \<open>\<open>search\<close>; the argument is \<open>None\<close> when it is not a string.\<close>

definition SearchEngine_search :: "SearchEngine \<Rightarrow> string option \<Rightarrow> error + SearchResult list" where
  "SearchEngine_search s arg =
     (if se_disposed s then Inl DisposedError
      else case arg of
             None \<Rightarrow> Inr []
           | Some query \<Rightarrow>
               if int (length query) < orElse (minSearchLength (se_config s)) 2 then Inr []
               else Inr (searchValidated s (validateString (se_config s) query)))"

definition SearchEngine_clear :: "SearchEngine \<Rightarrow> error + SearchEngine" where
  "SearchEngine_clear s = (if se_disposed s then Inl DisposedError else Inr (s\<lparr>se_index := [], se_articles := []\<rparr>))"

record IndexStats =
  indexedWords :: nat
  indexedArticles :: nat
  totalIndices :: nat

definition SearchEngine_getStats :: "SearchEngine \<Rightarrow> error + IndexStats" where
  "SearchEngine_getStats s =
     (if se_disposed s then Inl DisposedError
      else Inr \<lparr>indexedWords = length (se_index s), indexedArticles = length (se_articles s),
                totalIndices = sum_list (map (\<lambda>e. length (snd e)) (se_index s))\<rparr>)"

definition SearchEngine_dispose :: "SearchEngine \<Rightarrow> error + SearchEngine" where
  "SearchEngine_dispose s =
     (case SearchEngine_clear s of Inl e \<Rightarrow> Inl e | Inr s' \<Rightarrow> Inr (s'\<lparr>se_disposed := True\<rparr>))"

text \<open>Sample data.\<close>

definition defaultEngine :: SearchEngine where
  "defaultEngine =
     \<lparr>se_index = [], se_articles = [],
      se_config = \<lparr>minSearchLength = 2, highlightTag = (''<mark>'', ''</mark>''), caseSensitive = False,
                    maxResults = 20, maxQueryLength = 500, maxIndexSize = 100000\<rparr>,
      se_disposed = False\<rparr>"

definition indexed :: "js_doc list \<Rightarrow> SearchEngine" where
  "indexed ds = (case SearchEngine_indexArticles defaultEngine (Some ds) of Inl e \<Rightarrow> defaultEngine | Inr s \<Rightarrow> s)"

definition scoresOf :: "error + SearchResult list \<Rightarrow> (string \<times> nat) list" where
  "scoresOf r = (case r of Inl e \<Rightarrow> [] | Inr rs \<Rightarrow> map (\<lambda>x. (id_a (r_article x), score x)) rs)"








text \<open>The documents that the loop of \<open>indexArticles\<close> indexes, in order: those for which
  \<open>indexArticle\<close> does not throw, up to and including the one after which the index is larger
  than the ceiling.\<close>

fun indexedDocs :: "SearchEngineConfig \<Rightarrow> (string, SearchIndex list) jsmap \<Rightarrow> js_doc list \<Rightarrow> article list" where
  "indexedDocs cfg idx [] = []"
| "indexedDocs cfg idx (NotObject # ds) = indexedDocs cfg idx ds"
| "indexedDocs cfg idx (NoStringId # ds) = indexedDocs cfg idx ds"
| "indexedDocs cfg idx (Doc a # ds) =
     (case indexArticle cfg idx a of
        None \<Rightarrow> indexedDocs cfg idx ds
      | Some idx' \<Rightarrow>
          if int (length idx') > orElse (maxIndexSize cfg) 100000 then [a]
          else a # indexedDocs cfg idx' ds)"

definition indexable :: "js_doc list \<Rightarrow> article list" where
  "indexable ds =
     concat (map (\<lambda>d. case d of Doc a \<Rightarrow> (if id_a a = [] \<or> title a = [] \<or> content a = [] then [] else [a])
                              | _ \<Rightarrow> []) ds)"




definition goTitleAndBody :: article where
  "goTitleAndBody = mkArticle ''a'' ''go'' ''go'' 0 False"


definition guideTitleAndBody :: article where
  "guideTitleAndBody = mkArticle ''doc1'' ''Rust Guide'' ''guide it'' 0 False"

definition guideBodyOnly :: article where
  "guideBodyOnly = mkArticle ''doc2'' ''Go'' ''a guide'' 0 False"


definition guideDocs :: "js_doc list" where
  "guideDocs = [Doc guideTitleAndBody, NotObject, Doc guideBodyOnly]"


definition indexedBy :: "SearchEngine \<Rightarrow> js_doc list \<Rightarrow> SearchEngine" where
  "indexedBy e ds = (case SearchEngine_indexArticles e (Some ds) of Inl x \<Rightarrow> e | Inr s \<Rightarrow> s)"





section \<open>Disposed components\<close>

definition disposedArticleManager :: ArticleManager where
  "disposedArticleManager = (case ArticleManager_dispose sampleManager of Inl e \<Rightarrow> sampleManager | Inr m \<Rightarrow> m)"

definition disposedSearchEngine :: SearchEngine where
  "disposedSearchEngine = (case SearchEngine_dispose defaultEngine of Inl e \<Rightarrow> defaultEngine | Inr s \<Rightarrow> s)"

definition disposedPluginManager :: PluginManager where
  "disposedPluginManager = fst (PluginManager_dispose (chainManager [(''good'', titleProcessor)]))"

section \<open>Ordered maps\<close>


lemma keys_map_set: "set (map fst (map_set m k v)) = insert k (set (map fst m))"
proof (induction m)
  case Nil
  show ?case by simp
next
  case (Cons e m)
  obtain k' v' where e: "e = (k', v')" by (cases e)
  from Cons.IH have ih: "fst ` set (map_set m k v) = insert k (fst ` set m)" by simp
  show ?case
    by (cases "k' = k") (simp_all add: e ih insert_commute)
qed


lemma set_map_set: "e \<in> set (map_set m k v) \<Longrightarrow> e = (k, v) \<or> e \<in> set m"
  by (induction m) (auto split: if_splits)




lemma map_fst_map_set_present:
  "k \<in> fst ` set m \<Longrightarrow> map fst (map_set m k w) = map fst m"
proof (induction m)
  case Nil
  then show ?case by simp
next
  case (Cons e m)
  show ?case
  proof (cases "fst e = k")
    case True
    then show ?thesis by (cases e) simp
  next
    case False
    with Cons.prems have "k \<in> fst ` set m" by auto
    with Cons.IH False show ?thesis by (cases e) simp
  qed
qed

lemma length_map_delete:
  "distinct (map fst m) \<Longrightarrow> k \<in> fst ` set m \<Longrightarrow> Suc (length (map_delete m k)) = length m"
proof (induction m)
  case Nil
  then show ?case by simp
next
  case (Cons e m)
  show ?case
  proof (cases "fst e = k")
    case True
    with Cons.prems have "k \<notin> fst ` set m" by auto
    then have "filter (\<lambda>x. fst x \<noteq> k) m = m" by (auto simp: filter_id_conv)
    with True show ?thesis by (simp add: map_delete_def)
  next
    case False
    with Cons.prems have "distinct (map fst m)" and "k \<in> fst ` set m" by auto
    with Cons.IH False show ?thesis by (simp add: map_delete_def)
  qed
qed

lemma length_map_set_new: "k \<notin> fst ` set m \<Longrightarrow> length (map_set m k v) = Suc (length m)"
  by (induction m) auto

section \<open>Pagination of the article list\<close>

lemma length_sortArticles: "length (sortArticles as ord) = length as"
  by (cases ord) (simp_all add: sortArticles_def)

text \<open>
  Claim C10. \<open>getArticleList\<close> paginates only when both \<open>page\<close> and \<open>pageSize\<close> are given and
  non-zero. When either is absent or 0 the whole filtered, sorted list is returned, so that
  \<open>filtered\<close> equals \<open>total\<close>; no clamping to 1 takes place. When both are given and non-zero,
  each is clamped to at least 1 and the slice from \<open>(page - 1) * pageSize\<close> of length
  \<open>pageSize\<close> is returned.
\<close>

theorem getArticleList_pagination:
  assumes all: "ArticleManager_getArticles m = Inr all"
  shows "((opts = None \<or> o_page (the opts) = None \<or> o_page (the opts) = Some 0 \<or>
           o_pageSize (the opts) = None \<or> o_pageSize (the opts) = Some 0) \<longrightarrow>
          ArticleManager_getArticleList m f opts =
            Inr \<lparr>items = sortArticles (applyFilter f all) (sortOption opts),
                 total = length (applyFilter f all),
                 filtered = length (applyFilter f all)\<rparr>) \<and>
         (\<forall>o' p z. opts = Some o' \<and> o_page o' = Some p \<and> o_pageSize o' = Some z \<and> p \<noteq> 0 \<and> z \<noteq> 0 \<longrightarrow>
          ArticleManager_getArticleList m f opts =
            Inr \<lparr>items = take (nat (max 1 z)) (drop (nat ((max 1 p - 1) * max 1 z))
                             (sortArticles (applyFilter f all) (sortOption opts))),
                 total = length (applyFilter f all),
                 filtered = length (take (nat (max 1 z)) (drop (nat ((max 1 p - 1) * max 1 z))
                             (sortArticles (applyFilter f all) (sortOption opts))))\<rparr>)"
proof (intro conjI impI allI)
  assume "opts = None \<or> o_page (the opts) = None \<or> o_page (the opts) = Some 0 \<or>
          o_pageSize (the opts) = None \<or> o_pageSize (the opts) = Some 0"
  then have "\<not> pageGuard opts"
    by (auto simp: pageGuard_def truthyNum_def split: option.splits)
  then show "ArticleManager_getArticleList m f opts =
           Inr \<lparr>items = sortArticles (applyFilter f all) (sortOption opts),
                total = length (applyFilter f all),
                filtered = length (applyFilter f all)\<rparr>"
    using all by (simp add: ArticleManager_getArticleList_def paginate_def Let_def length_sortArticles)
next
  fix o' p z
  assume "opts = Some o' \<and> o_page o' = Some p \<and> o_pageSize o' = Some z \<and> p \<noteq> 0 \<and> z \<noteq> 0"
  then have "pageGuard opts" and "the (o_page (the opts)) = p" and "the (o_pageSize (the opts)) = z"
    by (simp_all add: pageGuard_def truthyNum_def)
  then show "ArticleManager_getArticleList m f opts =
           Inr \<lparr>items = take (nat (max 1 z)) (drop (nat ((max 1 p - 1) * max 1 z))
                            (sortArticles (applyFilter f all) (sortOption opts))),
                total = length (applyFilter f all),
                filtered = length (take (nat (max 1 z)) (drop (nat ((max 1 p - 1) * max 1 z))
                            (sortArticles (applyFilter f all) (sortOption opts))))\<rparr>"
    using all by (simp add: ArticleManager_getArticleList_def paginate_def Let_def)
qed

lemma sampleManager_getArticles:
  "ArticleManager_getArticles sampleManager =
     Inr [mkArticle ''p1'' ''First'' ''one'' 100 False,
          mkArticle ''p2'' ''Second'' ''two'' 300 False,
          mkArticle ''p3'' ''Third'' ''three'' 200 False]"
  by (simp add: ArticleManager_getArticles_def sampleManager_def map_values_def mkArticle_def)

theorem getArticleList_pagination_witness:
  "ArticleManager_getArticleList sampleManager None
       (Some \<lparr>o_sort = None, o_page = Some 0, o_pageSize = Some 2\<rparr>) =
     Inr \<lparr>items = [mkArticle ''p2'' ''Second'' ''two'' 300 False,
                   mkArticle ''p3'' ''Third'' ''three'' 200 False,
                   mkArticle ''p1'' ''First'' ''one'' 100 False],
          total = 3, filtered = 3\<rparr> \<and>
   ArticleManager_getArticleList sampleManager None
       (Some \<lparr>o_sort = None, o_page = Some (-4), o_pageSize = Some 2\<rparr>) =
     Inr \<lparr>items = [mkArticle ''p2'' ''Second'' ''two'' 300 False,
                   mkArticle ''p3'' ''Third'' ''three'' 200 False],
          total = 3, filtered = 2\<rparr>"
proof -
  note a = sampleManager_getArticles
  have s: "sortArticles [mkArticle ''p1'' ''First'' ''one'' 100 False,
                         mkArticle ''p2'' ''Second'' ''two'' 300 False,
                         mkArticle ''p3'' ''Third'' ''three'' 200 False] Desc =
           [mkArticle ''p2'' ''Second'' ''two'' 300 False,
            mkArticle ''p3'' ''Third'' ''three'' 200 False,
            mkArticle ''p1'' ''First'' ''one'' 100 False]"
    by (simp add: sortArticles_def mkArticle_def)
  show ?thesis
    using getArticleList_pagination [OF a, of "Some \<lparr>o_sort = None, o_page = Some 0, o_pageSize = Some 2\<rparr>" None]
          getArticleList_pagination [OF a, of "Some \<lparr>o_sort = None, o_page = Some (-4), o_pageSize = Some 2\<rparr>" None]
    by (simp add: s applyFilter_def sortOption_def)
qed


section \<open>Drafts\<close>

lemma set_applyFilter: "set (applyFilter f as) \<subseteq> set as"
  by (auto simp: applyFilter_def searchFilter_def filterArticles_def split: option.splits)

lemma set_sortArticles: "set (sortArticles as ord) = set as"
  by (cases ord) (simp_all add: sortArticles_def)

lemma set_take_drop: "set (take n (drop k xs)) \<subseteq> set xs"
  by (meson set_take_subset set_drop_subset subset_trans)

lemma set_paginate: "set (paginate opts as) \<subseteq> set as"
  by (simp add: paginate_def Let_def set_take_drop)

lemma getArticles_no_drafts:
  assumes "\<not> includeDrafts (am_config m)" and "ArticleManager_getArticles m = Inr as" and "a \<in> set as"
  shows "\<not> draft a"
  using assms by (auto simp: ArticleManager_getArticles_def split: if_splits)

lemma getArticleList_no_drafts:
  assumes "\<not> includeDrafts (am_config m)" and "ArticleManager_getArticleList m f opts = Inr r" and "a \<in> set (items r)"
  shows "\<not> draft a"
proof -
  from assms(2) obtain all where all: "ArticleManager_getArticles m = Inr all"
    by (cases "ArticleManager_getArticles m") (simp_all add: ArticleManager_getArticleList_def)
  then have "ArticleManager_getArticleList m f opts =
               Inr \<lparr>items = paginate opts (sortArticles (applyFilter f all) (sortOption opts)),
                    total = length (applyFilter f all),
                    filtered = length (paginate opts (sortArticles (applyFilter f all) (sortOption opts)))\<rparr>"
    by (simp add: ArticleManager_getArticleList_def Let_def)
  with assms(2) have "r = \<lparr>items = paginate opts (sortArticles (applyFilter f all) (sortOption opts)),
                            total = length (applyFilter f all),
                            filtered = length (paginate opts (sortArticles (applyFilter f all) (sortOption opts)))\<rparr>"
    by simp
  then have "items r = paginate opts (sortArticles (applyFilter f all) (sortOption opts))"
    by simp
  with assms(3) have "a \<in> set (paginate opts (sortArticles (applyFilter f all) (sortOption opts)))"
    by simp
  from this set_paginate have "a \<in> set (sortArticles (applyFilter f all) (sortOption opts))"
    by (rule rev_subsetD)
  then have "a \<in> set (applyFilter f all)"
    by (simp add: set_sortArticles)
  from this set_applyFilter have "a \<in> set all"
    by (rule rev_subsetD)
  with assms(1) all show ?thesis by (rule getArticles_no_drafts)
qed

lemma getRelatedArticles_no_drafts:
  assumes "\<not> includeDrafts (am_config m)" and "ArticleManager_getRelatedArticles m i lim = Inr rs" and "a \<in> set rs"
  shows "\<not> draft a"
proof (cases "map_get (am_articles m) i")
  case None
  with assms show ?thesis
    by (auto simp: ArticleManager_getRelatedArticles_def split: if_splits)
next
  case (Some b)
  from assms(2) have live: "\<not> am_disposed m"
    by (auto simp: ArticleManager_getRelatedArticles_def split: if_splits)
  then obtain all where all: "ArticleManager_getArticles m = Inr all"
    by (auto simp: ArticleManager_getArticles_def)
  from assms(2) Some live all have
    rs: "rs = take (nat (max 1 (min 100 (case lim of None \<Rightarrow> 3 | Some l \<Rightarrow> l))))
                (sort_key (\<lambda>c. - int (relatedScore b c))
                   (filter (\<lambda>c. relatedScore b c > 0) (filter (\<lambda>c. id_a c \<noteq> i) all)))"
    by (simp add: ArticleManager_getRelatedArticles_def Let_def)
  from assms(3) have "a \<in> set (sort_key (\<lambda>c. - int (relatedScore b c))
                   (filter (\<lambda>c. relatedScore b c > 0) (filter (\<lambda>c. id_a c \<noteq> i) all)))"
    unfolding rs by (rule in_set_takeD)
  then have "a \<in> set all" by simp
  with assms(1) all show ?thesis by (rule getArticles_no_drafts)
qed

text \<open>
  Claim C4. With \<open>includeDrafts\<close> false no read operation returns a document whose draft flag
  is set. The listing operations filter drafts (lemmas above), but \<open>getArticleById\<close> reads the
  stored map directly: on a store holding the draft \<open>d1\<close> it returns that draft.
\<close>

theorem getArticleById_returns_draft:
  "includeDrafts (am_config sampleManager) = False \<and>
   ArticleManager_getArticleById sampleManager ''d1'' =
     Inr (Some (mkArticle ''d1'' ''Hidden'' ''draft text'' 400 True)) \<and>
   draft (mkArticle ''d1'' ''Hidden'' ''draft text'' 400 True)"
  by (simp add: ArticleManager_getArticleById_def sampleManager_def map_get_def mkArticle_def)

section \<open>Creating a document from source text\<close>

text \<open>When the tags are written as the JSON array \<open>["x","y"]\<close> the array branch of
  \<open>parseValue\<close> succeeds and the tags are \<open>x\<close> and \<open>y\<close>.\<close>

lemma createArticleFromMarkdown_json_tags:
  "ArticleManager_createArticleFromMarkdown m ''a'' roundTripJson =
     Ok \<lparr>c_id = ''a'', c_title = ''Hello'', c_content = ''Body text'',
         c_tags = [''x'', ''y''], c_categories = [], c_keywords = None, c_draft = False,
         c_raw = roundTripJson\<rparr>"
  by code_simp

text \<open>
  Claim C1: for the id \<open>a\<close> and the source text with the lines \<open>title: Hello\<close> and
  \<open>tags: [x,y]\<close> in its frontmatter and the body \<open>Body text\<close>, the created document has the
  title \<open>Hello\<close>, the tags \<open>x\<close> and \<open>y\<close> and the body \<open>Body text\<close>. The code gives the
  title and the body but no tags: the array branch of the YAML value parser hands \<open>[x,y]\<close> to
  \<open>JSON.parse\<close>, which throws on the YAML flow sequence; the catch keeps the text as a string,
  and \<open>createArticleFromMarkdown\<close> takes tags from arrays only.
\<close>

theorem createArticleFromMarkdown_tags_counterexample:
  "ArticleManager_createArticleFromMarkdown sampleManager ''a'' roundTripSource =
     Ok \<lparr>c_id = ''a'', c_title = ''Hello'', c_content = ''Body text'',
         c_tags = [], c_categories = [], c_keywords = None, c_draft = False,
         c_raw = roundTripSource\<rparr> \<and>
   c_tags \<lparr>c_id = ''a'', c_title = ''Hello'', c_content = ''Body text'',
         c_tags = [], c_categories = [], c_keywords = None, c_draft = False,
         c_raw = roundTripSource\<rparr> \<noteq> [''x'', ''y'']"
  by code_simp

section \<open>Cache eviction\<close>

lemma MemoryCache_set_present_key:
  assumes "map_has (cache c) key"
  shows "keysOf (MemoryCache_set c now key v x) = keysOf c"
  using assms by (simp add: MemoryCache_set_def keysOf_def map_has_def map_fst_map_set_present)

lemma MemoryCache_FIFO_later_insert:
  "keysOf (insertABC FIFO 0 1 2) = [''B'', ''C'']"
  by code_simp

lemma MemoryCache_LFU_after_get:
  "keysOf (insertABgetAC LFU 0 0 0 0) = [''A'', ''C'']"
  by code_simp

text \<open>The LFU scan starts from \<open>Infinity\<close> and always finds a key: at capacity, a \<open>set\<close> with
  a new key removes one entry and adds one.\<close>

lemma scanHits_result:
  "scanHits l key es = key \<or> (\<exists>k \<in> fst ` set es. scanHits l key es = Some k)"
proof (induction es arbitrary: l key)
  case Nil
  show ?case by simp
next
  case (Cons e es)
  obtain k v where e: "e = (k, v)" by (cases e)
  show ?case
  proof (cases "case l of None \<Rightarrow> True | Some x \<Rightarrow> hits v < x")
    case True
    with Cons.IH [of "Some (hits v)" "Some k"] show ?thesis by (auto simp: e)
  next
    case False
    with Cons.IH [of l key] show ?thesis by (auto simp: e)
  qed
qed

lemma scanHits_finds:
  assumes "es \<noteq> []"
  shows "\<exists>k \<in> fst ` set es. scanHits None None es = Some k"
proof -
  from assms obtain k v rest where es: "es = (k, v) # rest" by (cases es) auto
  from scanHits_result [of "Some (hits v)" "Some k" rest]
  show ?thesis by (auto simp: es)
qed

lemma MemoryCache_LFU_set_at_capacity:
  assumes "evictionPolicy c = LFU" and "distinct (keysOf c)" and "[] \<notin> set (keysOf c)"
    and "cache c \<noteq> []" and "maxSize c \<le> int (length (cache c))" and "\<not> map_has (cache c) key"
  shows "MemoryCache_size (MemoryCache_set c now key v x) = MemoryCache_size c"
proof -
  from scanHits_finds [OF assms(4)] obtain k where k: "k \<in> fst ` set (cache c)"
    and found: "scanHits None None (cache c) = Some k" by blast
  from k have "k \<in> set (keysOf c)" by (simp add: keysOf_def)
  with assms(3) have "k \<noteq> []" by auto
  with found assms(1,4) have ev: "evict c now = c\<lparr>cache := map_delete (cache c) k\<rparr>"
    by (simp add: evict_def keyToEvict_def)
  from assms(6) have "key \<notin> fst ` set (map_delete (cache c) k)"
    by (auto simp: map_has_def map_delete_def)
  then have "length (map_set (map_delete (cache c) k) key w) = Suc (length (map_delete (cache c) k))" for w
    by (rule length_map_set_new)
  moreover from assms(2) k have "Suc (length (map_delete (cache c) k)) = length (cache c)"
    by (intro length_map_delete) (simp_all add: keysOf_def)
  ultimately show ?thesis
    using assms(5,6) by (simp add: MemoryCache_set_def MemoryCache_size_def ev)
qed

text \<open>
  Claim C3. At capacity, a \<open>set\<close> with a new key evicts exactly one entry chosen by the
  policy, so that the size never exceeds \<open>maxSize\<close>; with \<open>maxSize = 2\<close> and FIFO, inserting A,
  B, C evicts A. The code does not: under LRU the scan starts from the clock reading, so an
  entry is chosen only when it has already expired; with the default expiry of one hour the
  third insertion evicts nothing and the cache holds three entries. Under FIFO the scan starts
  from the clock reading as well, so three insertions within one millisecond evict nothing.
\<close>

theorem MemoryCache_exceeds_maxSize:
  "maxSize (insertABC LRU 0 1 2) = 2 \<and>
   keysOf (insertABC LRU 0 1 2) = [''A'', ''B'', ''C''] \<and>
   MemoryCache_size (insertABC LRU 0 1 2) = 3 \<and>
   keysOf (insertABC FIFO 5 5 5) = [''A'', ''B'', ''C'']"
  by code_simp

section \<open>The processor chain\<close>











lemma processArticle_skips_hanging_processor:
  "PluginManager_processArticle
     (chainManager [(''hang'', hangingProcessor), (''good'', titleProcessor)]) (Some sampleDoc) =
     Inr (sampleDoc\<lparr>title := ''Title!''\<rparr>)"
  by (simp add: PluginManager_processArticle_def chainManager_def new_PluginManager_def deadline_def
      accepted_def withTimeout_def beats_def timerDelay_def hangingProcessor_def titleProcessor_def
      sampleDoc_def mkArticle_def)

text \<open>A processor that settles exactly when the timer is due is accepted.\<close>

lemma processArticle_accepts_at_deadline:
  "PluginManager_processArticle (chainManager [(''tie'', tieProcessor)]) (Some sampleDoc) =
     Inr (sampleDoc\<lparr>title := ''Title?''\<rparr>)"
  by (simp add: PluginManager_processArticle_def chainManager_def new_PluginManager_def deadline_def
      accepted_def withTimeout_def beats_def timerDelay_def tieProcessor_def sampleDoc_def mkArticle_def)

text \<open>A timeout above what the host's timer accepts acts as one millisecond.\<close>

lemma withTimeout_clamped:
  "withTimeout (Resolved 2 v) 3000000000 = Inl TimeoutError \<and>
   withTimeout (Resolved 1 v) 3000000000 = Inr v \<and>
   withTimeout (Resolved 2 v) (- 5) = Inl TimeoutError"
  by (simp add: withTimeout_def beats_def timerDelay_def)

section \<open>Plugin registration\<close>

lemma registerArticleProcessor_frame:
  "PluginManager_registerArticleProcessor m name fn = Inr m' \<Longrightarrow>
     pm_plugins m' = pm_plugins m \<and> pm_activePlugins m' = pm_activePlugins m \<and>
     pm_timeout m' = pm_timeout m \<and> pm_disposed m' = pm_disposed m"
  by (auto simp: PluginManager_registerArticleProcessor_def split: if_splits option.splits)

lemma registerSearchExtension_frame:
  "PluginManager_registerSearchExtension m name fn = Inr m' \<Longrightarrow>
     pm_plugins m' = pm_plugins m \<and> pm_activePlugins m' = pm_activePlugins m \<and>
     pm_timeout m' = pm_timeout m \<and> pm_disposed m' = pm_disposed m"
  by (auto simp: PluginManager_registerSearchExtension_def split: if_splits option.splits)

lemma runCalls_frame:
  "runCalls m name cs = (m', e) \<Longrightarrow>
     pm_plugins m' = pm_plugins m \<and> pm_activePlugins m' = pm_activePlugins m \<and>
     pm_timeout m' = pm_timeout m \<and> pm_disposed m' = pm_disposed m"
proof (induction m name cs rule: runCalls.induct)
  case (1 m name)
  then show ?case by simp
next
  case (2 m name fn cs)
  show ?case
  proof (cases "PluginManager_registerArticleProcessor m name fn")
    case (Inl x)
    with 2(2) show ?thesis by simp
  next
    case (Inr m1)
    with 2 have "pm_plugins m' = pm_plugins m1 \<and> pm_activePlugins m' = pm_activePlugins m1 \<and>
         pm_timeout m' = pm_timeout m1 \<and> pm_disposed m' = pm_disposed m1" by simp
    with registerArticleProcessor_frame [OF Inr] show ?thesis by simp
  qed
next
  case (3 m name fn cs)
  show ?case
  proof (cases "PluginManager_registerSearchExtension m name fn")
    case (Inl x)
    with 3(2) show ?thesis by simp
  next
    case (Inr m1)
    with 3 have "pm_plugins m' = pm_plugins m1 \<and> pm_activePlugins m' = pm_activePlugins m1 \<and>
         pm_timeout m' = pm_timeout m1 \<and> pm_disposed m' = pm_disposed m1" by simp
    with registerSearchExtension_frame [OF Inr] show ?thesis by simp
  qed
qed





text \<open>A hook that settles before the timer is due, or exactly when it is due, is registered.\<close>

lemma registerPlugin_in_time:
  "snd (PluginManager_registerPlugin (new_PluginManager None None) (Some (samplePlugin (Resolved 9999 ())))) = None \<and>
   pm_activePlugins (fst (PluginManager_registerPlugin (new_PluginManager None None)
      (Some (samplePlugin (Resolved 9999 ()))))) = [''slow'']"
  by (simp add: PluginManager_registerPlugin_def new_PluginManager_def map_has_def samplePlugin_def
      PluginManager_registerArticleProcessor_def processorLimit_def withTimeout_def beats_def
      timerDelay_def deadline_def)

lemma registerPlugin_at_deadline:
  "snd (PluginManager_registerPlugin (new_PluginManager None None) (Some (samplePlugin (Resolved 10000 ())))) = None \<and>
   pm_activePlugins (fst (PluginManager_registerPlugin (new_PluginManager None None)
      (Some (samplePlugin (Resolved 10000 ()))))) = [''slow'']"
  by (simp add: PluginManager_registerPlugin_def new_PluginManager_def map_has_def samplePlugin_def
      PluginManager_registerArticleProcessor_def processorLimit_def withTimeout_def beats_def
      timerDelay_def deadline_def)

text \<open>With a timeout above what the host's timer accepts, a hook that takes two milliseconds
  is too late.\<close>

lemma registerPlugin_clamped_timeout:
  "snd (PluginManager_registerPlugin patientManager (Some (samplePlugin (Resolved 2 ())))) = Some TimeoutError \<and>
   pm_activePlugins (fst (PluginManager_registerPlugin patientManager (Some (samplePlugin (Resolved 2 ()))))) = []"
  by (simp add: patientManager_def PluginManager_registerPlugin_def new_PluginManager_def map_has_def
      samplePlugin_def PluginManager_registerArticleProcessor_def processorLimit_def withTimeout_def
      beats_def timerDelay_def deadline_def)

text \<open>Processors that the hook registered before the deadline stay in the chain after the
  failed registration.\<close>

lemma registerPlugin_timeout_leaves_processor:
  "map fst (pm_articleProcessors (fst (PluginManager_registerPlugin (new_PluginManager None None)
      (Some (samplePlugin Pending))))) = [''slow'']"
  by (simp add: PluginManager_registerPlugin_def new_PluginManager_def map_has_def samplePlugin_def
      PluginManager_registerArticleProcessor_def processorLimit_def withTimeout_def)

text \<open>The plugin map and the active set hold the same names in every state the manager
  reaches.\<close>

lemma registryConsistent_new: "registryConsistent (new_PluginManager tmo mx)"
  by (simp add: registryConsistent_def new_PluginManager_def)

lemma registryConsistent_registerPlugin:
  assumes "registryConsistent m"
  shows "registryConsistent (fst (PluginManager_registerPlugin m arg))"
proof (cases "pm_disposed m \<or> arg = None")
  case True
  with assms show ?thesis by (auto simp: PluginManager_registerPlugin_def)
next
  case False
  then obtain p where arg: "arg = Some p" and live: "\<not> pm_disposed m" by auto
  obtain m' e where rc: "runCalls m (p_name p) (activate_calls p) = (m', e)"
    by (cases "runCalls m (p_name p) (activate_calls p)")
  note fr = runCalls_frame [OF rc]
  from assms fr have c': "registryConsistent m'" by (simp add: registryConsistent_def)
  show ?thesis
  proof (cases "map_has (pm_plugins m) (p_name p)")
    case True
    with assms live show ?thesis by (simp add: PluginManager_registerPlugin_def arg)
  next
    case fresh: False
    show ?thesis
    proof (cases e)
      case (Some x)
      with live fresh rc c' show ?thesis by (simp add: PluginManager_registerPlugin_def arg)
    next
      case None
      show ?thesis
      proof (cases "withTimeout (activate p) (deadline m')")
        case (Inl x)
        with None live fresh rc c' show ?thesis by (simp add: PluginManager_registerPlugin_def arg)
      next
        case (Inr u)
        from c' have "set (pm_activePlugins m') = fst ` set (pm_plugins m')"
          by (simp add: registryConsistent_def)
        moreover have "fst ` set (map_set (pm_plugins m') (p_name p) p) = insert (p_name p) (fst ` set (pm_plugins m'))"
          using keys_map_set [of "pm_plugins m'" "p_name p" p] by simp
        ultimately have "registryConsistent (m'\<lparr>pm_plugins := map_set (pm_plugins m') (p_name p) p,
                                  pm_activePlugins :=
                                    (if p_name p \<in> set (pm_activePlugins m') then pm_activePlugins m'
                                     else pm_activePlugins m' @ [p_name p])\<rparr>)"
          by (auto simp: registryConsistent_def)
        with Inr None live fresh rc show ?thesis by (simp add: PluginManager_registerPlugin_def arg)
      qed
    qed
  qed
qed

lemma registryConsistent_unregisterPlugin:
  assumes "registryConsistent m"
  shows "registryConsistent (fst (PluginManager_unregisterPlugin m name))"
proof -
  have "registryConsistent (m\<lparr>pm_plugins := map_delete (pm_plugins m) name,
                       pm_activePlugins := filter (\<lambda>n. n \<noteq> name) (pm_activePlugins m),
                       pm_articleProcessors := ps, pm_searchExtensions := es\<rparr>)" for ps es
    using assms by (auto simp: registryConsistent_def map_delete_def)
  with assms show ?thesis
    by (auto simp: PluginManager_unregisterPlugin_def split: option.splits sum.splits)
qed

section \<open>The inverted index\<close>
















lemma indexArticle_Some_iff:
  "(\<exists>idx'. indexArticle cfg idx a = Some idx') \<longleftrightarrow> \<not> (id_a a = [] \<or> title a = [] \<or> content a = [])"
  by (simp add: indexArticle_def)



lemma indexedDocs_all:
  assumes "int (length (fst (indexLoop cfg (idx, arts) ds))) \<le> orElse (maxIndexSize cfg) 100000"
  shows "indexedDocs cfg idx ds = indexable ds"
  using assms
proof (induction ds arbitrary: idx arts)
  case Nil
  show ?case by (simp add: indexable_def)
next
  case (Cons d ds)
  have tl: "indexable (x # ds) = indexable [x] @ indexable ds" for x
    by (simp add: indexable_def)
  show ?case
  proof (cases d)
    case NotObject
    with Cons show ?thesis by (simp add: indexable_def)
  next
    case NoStringId
    with Cons show ?thesis by (simp add: indexable_def)
  next
    case (Doc a)
    show ?thesis
    proof (cases "indexArticle cfg idx a")
      case None
      then have "id_a a = [] \<or> title a = [] \<or> content a = []"
        using indexArticle_Some_iff [of cfg idx a] by auto
      then have "indexable [Doc a] = []" by (simp add: indexable_def)
      with None Doc Cons show ?thesis by (simp add: tl [of "Doc a"])
    next
      case (Some idx')
      then have "\<not> (id_a a = [] \<or> title a = [] \<or> content a = [])"
        using indexArticle_Some_iff [of cfg idx a] by auto
      then have one: "indexable [Doc a] = [a]" by (simp add: indexable_def)
      have small: "\<not> int (length idx') > orElse (maxIndexSize cfg) 100000"
      proof
        assume big: "int (length idx') > orElse (maxIndexSize cfg) 100000"
        with Doc Some have "fst (indexLoop cfg (idx, arts) (d # ds)) = idx'" by simp
        with Cons.prems big show False by simp
      qed
      with Doc Some Cons.prems
      have "int (length (fst (indexLoop cfg (idx', map_set arts (id_a a) a) ds))) \<le> orElse (maxIndexSize cfg) 100000"
        by simp
      from Cons.IH [OF this] small Doc Some show ?thesis
        by (simp add: tl [of "Doc a"] one)
    qed
  qed
qed


section \<open>Scores\<close>









section \<open>Weight accumulation\<close>




section \<open>Search results\<close>












section \<open>Results of a query with one token\<close>











lemma indexed_guideDocs:
  "SearchEngine_indexArticles defaultEngine (Some guideDocs) = Inr (indexed guideDocs)"
  by (simp add: indexed_def SearchEngine_indexArticles_def defaultEngine_def)

lemma se_config_indexed: "se_config (indexed ds) = se_config defaultEngine"
  by (simp add: indexed_def SearchEngine_indexArticles_def defaultEngine_def)

lemma guide_scores:
  "scoresOf (SearchEngine_search (indexed guideDocs) (Some ''guide'')) = [(''doc1'', 11), (''doc2'', 1)]"
  by code_simp

section \<open>Rebuilding the index\<close>

lemma indexArticles_again:
  assumes "SearchEngine_indexArticles s arg = Inr s1"
  shows "SearchEngine_indexArticles s1 arg = Inr s1"
proof (cases arg)
  case None
  with assms show ?thesis by (simp add: SearchEngine_indexArticles_def split: if_splits)
next
  case (Some ds)
  with assms have live: "\<not> se_disposed s"
    and s1: "s1 = s\<lparr>se_index := fst (indexLoop (se_config s) ([], []) ds),
                     se_articles := snd (indexLoop (se_config s) ([], []) ds)\<rparr>"
    by (simp_all add: SearchEngine_indexArticles_def split: if_splits)
  show ?thesis
    using live unfolding s1 Some by (simp add: SearchEngine_indexArticles_def)
qed

lemma indexArticles_from_any_state:
  assumes "se_config s' = se_config s"
    and "SearchEngine_indexArticles s (Some ds) = Inr s1"
    and "SearchEngine_indexArticles s' (Some ds) = Inr s1'"
  shows "s1' = s1"
proof -
  from assms(2) have live: "\<not> se_disposed s"
    and s1: "s1 = s\<lparr>se_index := fst (indexLoop (se_config s) ([], []) ds),
                     se_articles := snd (indexLoop (se_config s) ([], []) ds)\<rparr>"
    by (simp_all add: SearchEngine_indexArticles_def split: if_splits)
  from assms(3) have live': "\<not> se_disposed s'"
    and s1': "s1' = s'\<lparr>se_index := fst (indexLoop (se_config s') ([], []) ds),
                       se_articles := snd (indexLoop (se_config s') ([], []) ds)\<rparr>"
    by (simp_all add: SearchEngine_indexArticles_def split: if_splits)
  show ?thesis
    unfolding s1 s1' using assms(1) live live' by (intro SearchEngine.equality) simp_all
qed

text \<open>
  Claim C7. Calling \<open>indexArticles(D)\<close> twice and then \<open>search(q)\<close> gives what calling it
  once and then \<open>search(q)\<close> gives; each call on an array discards the previous index and
  document cache, so the engine after the call does not depend on what it held before.
\<close>

theorem indexArticles_idempotent:
  "(case SearchEngine_indexArticles s D of
      Inl e \<Rightarrow> Inl e
    | Inr s1 \<Rightarrow> (case SearchEngine_indexArticles s1 D of Inl e \<Rightarrow> Inl e | Inr s2 \<Rightarrow> SearchEngine_search s2 q)) =
   (case SearchEngine_indexArticles s D of Inl e \<Rightarrow> Inl e | Inr s1 \<Rightarrow> SearchEngine_search s1 q) \<and>
   (\<forall>s' ds s1 s1'. se_config s' = se_config s \<and>
        SearchEngine_indexArticles s (Some ds) = Inr s1 \<and>
        SearchEngine_indexArticles s' (Some ds) = Inr s1' \<longrightarrow>
        se_index s1' = se_index s1 \<and> se_articles s1' = se_articles s1 \<and>
        SearchEngine_search s1' q = SearchEngine_search s1 q)"
proof (intro conjI allI impI)
  show "(case SearchEngine_indexArticles s D of
      Inl e \<Rightarrow> Inl e
    | Inr s1 \<Rightarrow> (case SearchEngine_indexArticles s1 D of Inl e \<Rightarrow> Inl e | Inr s2 \<Rightarrow> SearchEngine_search s2 q)) =
   (case SearchEngine_indexArticles s D of Inl e \<Rightarrow> Inl e | Inr s1 \<Rightarrow> SearchEngine_search s1 q)"
  proof (cases "SearchEngine_indexArticles s D")
    case (Inl e)
    then show ?thesis by simp
  next
    case (Inr s1)
    from indexArticles_again [OF Inr] Inr show ?thesis by simp
  qed
next
  fix s' ds s1 s1'
  assume h: "se_config s' = se_config s \<and>
        SearchEngine_indexArticles s (Some ds) = Inr s1 \<and>
        SearchEngine_indexArticles s' (Some ds) = Inr s1'"
  then have "s1' = s1"
    using indexArticles_from_any_state by blast
  then show "se_index s1' = se_index s1" "se_articles s1' = se_articles s1"
    "SearchEngine_search s1' q = SearchEngine_search s1 q" by simp_all
qed

section \<open>Engine states and search results\<close>








lemma indexedBy_props:
  assumes "\<not> se_disposed e"
  shows "SearchEngine_indexArticles e (Some ds) = Inr (indexedBy e ds)"
    and "se_config (indexedBy e ds) = se_config e"
    and "\<not> se_disposed (indexedBy e ds)"
  using assms by (simp_all add: indexedBy_def SearchEngine_indexArticles_def)

lemma indexed_indexedBy: "indexed ds = indexedBy defaultEngine ds"
  by (simp add: indexed_def indexedBy_def)

lemma defaultEngine_live: "\<not> se_disposed defaultEngine"
  by (simp add: defaultEngine_def)

theorem indexArticles_idempotent_witness:
  "scoresOf (case SearchEngine_indexArticles defaultEngine (Some guideDocs) of
      Inl e \<Rightarrow> Inl e
    | Inr s1 \<Rightarrow> (case SearchEngine_indexArticles s1 (Some guideDocs) of
                   Inl e \<Rightarrow> Inl e | Inr s2 \<Rightarrow> SearchEngine_search s2 (Some ''guide''))) =
     [(''doc1'', 11), (''doc2'', 1)] \<and>
   se_index (indexedBy (indexed [Doc goTitleAndBody]) guideDocs) = se_index (indexed guideDocs) \<and>
   SearchEngine_search (indexedBy (indexed [Doc goTitleAndBody]) guideDocs) (Some ''guide'') =
     SearchEngine_search (indexed guideDocs) (Some ''guide'')"
proof -
  note T = indexArticles_idempotent [where s = defaultEngine and D = "Some guideDocs" and q = "Some ''guide''"]
  have live': "\<not> se_disposed (indexed [Doc goTitleAndBody])"
    unfolding indexed_indexedBy using defaultEngine_live by (rule indexedBy_props(3))
  have cfg: "se_config (indexed [Doc goTitleAndBody]) = se_config defaultEngine"
    by (rule se_config_indexed)
  note b' = indexedBy_props(1) [OF live', of guideDocs]
  from T [THEN conjunct2, THEN spec, THEN spec, THEN spec, THEN spec,
          of "indexed [Doc goTitleAndBody]" guideDocs "indexed guideDocs"
             "indexedBy (indexed [Doc goTitleAndBody]) guideDocs"]
       cfg indexed_guideDocs b'
  have two: "se_index (indexedBy (indexed [Doc goTitleAndBody]) guideDocs) = se_index (indexed guideDocs) \<and>
        se_articles (indexedBy (indexed [Doc goTitleAndBody]) guideDocs) = se_articles (indexed guideDocs) \<and>
        SearchEngine_search (indexedBy (indexed [Doc goTitleAndBody]) guideDocs) (Some ''guide'') =
        SearchEngine_search (indexed guideDocs) (Some ''guide'')"
    by simp
  from T [THEN conjunct1] have one: "(case SearchEngine_indexArticles defaultEngine (Some guideDocs) of
      Inl e \<Rightarrow> Inl e
    | Inr s1 \<Rightarrow> (case SearchEngine_indexArticles s1 (Some guideDocs) of
                   Inl e \<Rightarrow> Inl e | Inr s2 \<Rightarrow> SearchEngine_search s2 (Some ''guide''))) =
      SearchEngine_search (indexed guideDocs) (Some ''guide'')"
    by (simp add: indexed_guideDocs)
  show ?thesis
    unfolding one using guide_scores two by simp
qed





section \<open>Operations after disposal\<close>

text \<open>
  Claim C5, as stated: after \<open>dispose()\<close> every public operation of the component throws.
  \<open>PluginManager.dispose\<close> is itself a public operation and returns without an error when
  the manager is already disposed.
\<close>

theorem dispose_twice_counterexample:
  "pm_disposed disposedPluginManager \<and>
   snd (PluginManager_dispose disposedPluginManager) = None"
  by (simp add: disposedPluginManager_def PluginManager_dispose_def chainManager_def new_PluginManager_def)

text \<open>
  Claim C5, amended: after \<open>dispose()\<close> every public operation that starts with the disposed
  check throws the disposal error, for all inputs: for \<open>ArticleManager\<close> \<open>addArticle\<close>,
  \<open>getArticles\<close>, \<open>getArticleById\<close>, \<open>getArticleList\<close>, \<open>getRelatedArticles\<close>,
  \<open>getTagStats\<close>, \<open>getCategoryStats\<close>, \<open>getStats\<close>, \<open>clear\<close> and \<open>dispose\<close>; for
  \<open>SearchEngine\<close> \<open>indexArticles\<close>, \<open>search\<close>, \<open>clear\<close>, \<open>getStats\<close> and \<open>dispose\<close>; for
  \<open>PluginManager\<close> \<open>registerPlugin\<close>, \<open>unregisterPlugin\<close>, \<open>registerArticleProcessor\<close>,
  \<open>processArticle\<close>, \<open>registerSearchExtension\<close>, \<open>executeSearchExtensions\<close>, \<open>getPlugins\<close>,
  \<open>getActivePlugins\<close>, \<open>getPluginInfo\<close> and \<open>getProcessorStats\<close>. \<open>PluginManager.dispose\<close>
  called again returns without an error and leaves the manager as it is.
\<close>

theorem disposed_operations_throw:
  "(am_disposed m \<longrightarrow>
      ArticleManager_addArticle m a = Inl DisposedError \<and>
      ArticleManager_getArticles m = Inl DisposedError \<and>
      ArticleManager_getArticleById m i = Inl DisposedError \<and>
      ArticleManager_getArticleList m f opts = Inl DisposedError \<and>
      ArticleManager_getRelatedArticles m i lim = Inl DisposedError \<and>
      ArticleManager_getTagStats m = Inl DisposedError \<and>
      ArticleManager_getCategoryStats m = Inl DisposedError \<and>
      ArticleManager_getStats m = Inl DisposedError \<and>
      ArticleManager_clear m = Inl DisposedError \<and>
      ArticleManager_dispose m = Inl DisposedError) \<and>
   (se_disposed s \<longrightarrow>
      SearchEngine_indexArticles s ds = Inl DisposedError \<and>
      SearchEngine_search s q = Inl DisposedError \<and>
      SearchEngine_clear s = Inl DisposedError \<and>
      SearchEngine_getStats s = Inl DisposedError \<and>
      SearchEngine_dispose s = Inl DisposedError) \<and>
   (pm_disposed p \<longrightarrow>
      PluginManager_registerPlugin p plugin = (p, Some DisposedError) \<and>
      PluginManager_unregisterPlugin p name = (p, Some DisposedError) \<and>
      PluginManager_registerArticleProcessor p name fn = Inl DisposedError \<and>
      PluginManager_processArticle p a = Inl DisposedError \<and>
      PluginManager_registerSearchExtension p name ext = Inl DisposedError \<and>
      PluginManager_executeSearchExtensions p q arts = Inl DisposedError \<and>
      PluginManager_getPlugins p = Inl DisposedError \<and>
      PluginManager_getActivePlugins p = Inl DisposedError \<and>
      PluginManager_getPluginInfo p name = Inl DisposedError \<and>
      PluginManager_getProcessorStats p = Inl DisposedError \<and>
      PluginManager_dispose p = (p, None))"
proof (intro conjI impI)
  assume d: "am_disposed m"
  then have g: "ArticleManager_getArticles m = Inl DisposedError"
    by (simp add: ArticleManager_getArticles_def)
  show "ArticleManager_getArticles m = Inl DisposedError" by (rule g)
  show "ArticleManager_addArticle m a = Inl DisposedError"
    using d by (simp add: ArticleManager_addArticle_def)
  show "ArticleManager_getArticleById m i = Inl DisposedError"
    using d by (simp add: ArticleManager_getArticleById_def)
  show "ArticleManager_getArticleList m f opts = Inl DisposedError"
    by (simp add: ArticleManager_getArticleList_def g)
  show "ArticleManager_getRelatedArticles m i lim = Inl DisposedError"
    using d by (simp add: ArticleManager_getRelatedArticles_def)
  show "ArticleManager_getTagStats m = Inl DisposedError"
    using d by (simp add: ArticleManager_getTagStats_def)
  show "ArticleManager_getCategoryStats m = Inl DisposedError"
    using d by (simp add: ArticleManager_getCategoryStats_def)
  show "ArticleManager_getStats m = Inl DisposedError"
    using d by (simp add: ArticleManager_getStats_def)
  show c: "ArticleManager_clear m = Inl DisposedError"
    using d by (simp add: ArticleManager_clear_def)
  show "ArticleManager_dispose m = Inl DisposedError"
    by (simp add: ArticleManager_dispose_def c)
next
  assume d: "se_disposed s"
  show "SearchEngine_indexArticles s ds = Inl DisposedError"
    using d by (simp add: SearchEngine_indexArticles_def)
  show "SearchEngine_search s q = Inl DisposedError"
    using d by (simp add: SearchEngine_search_def)
  show c: "SearchEngine_clear s = Inl DisposedError"
    using d by (simp add: SearchEngine_clear_def)
  show "SearchEngine_getStats s = Inl DisposedError"
    using d by (simp add: SearchEngine_getStats_def)
  show "SearchEngine_dispose s = Inl DisposedError"
    by (simp add: SearchEngine_dispose_def c)
next
  assume d: "pm_disposed p"
  show "PluginManager_registerPlugin p plugin = (p, Some DisposedError)"
    using d by (simp add: PluginManager_registerPlugin_def)
  show "PluginManager_unregisterPlugin p name = (p, Some DisposedError)"
    using d by (simp add: PluginManager_unregisterPlugin_def)
  show "PluginManager_registerArticleProcessor p name fn = Inl DisposedError"
    using d by (simp add: PluginManager_registerArticleProcessor_def)
  show "PluginManager_processArticle p a = Inl DisposedError"
    using d by (simp add: PluginManager_processArticle_def)
  show "PluginManager_registerSearchExtension p name ext = Inl DisposedError"
    using d by (simp add: PluginManager_registerSearchExtension_def)
  show "PluginManager_executeSearchExtensions p q arts = Inl DisposedError"
    using d by (simp add: PluginManager_executeSearchExtensions_def)
  show "PluginManager_getPlugins p = Inl DisposedError"
    using d by (simp add: PluginManager_getPlugins_def)
  show "PluginManager_getActivePlugins p = Inl DisposedError"
    using d by (simp add: PluginManager_getActivePlugins_def)
  show "PluginManager_getPluginInfo p name = Inl DisposedError"
    using d by (simp add: PluginManager_getPluginInfo_def)
  show "PluginManager_getProcessorStats p = Inl DisposedError"
    using d by (simp add: PluginManager_getProcessorStats_def)
  show "PluginManager_dispose p = (p, None)"
    using d by (simp add: PluginManager_dispose_def)
qed

lemma disposed_samples:
  "am_disposed disposedArticleManager" "se_disposed disposedSearchEngine" "pm_disposed disposedPluginManager"
  by (simp_all add: disposedArticleManager_def ArticleManager_dispose_def ArticleManager_clear_def sampleManager_def
      disposedSearchEngine_def SearchEngine_dispose_def SearchEngine_clear_def defaultEngine_def
      disposedPluginManager_def PluginManager_dispose_def chainManager_def new_PluginManager_def)

theorem disposed_operations_throw_witness:
  "ArticleManager_getArticles disposedArticleManager = Inl DisposedError \<and>
   ArticleManager_getArticleById disposedArticleManager ''p1'' = Inl DisposedError \<and>
   ArticleManager_dispose disposedArticleManager = Inl DisposedError \<and>
   SearchEngine_search disposedSearchEngine (Some ''guide'') = Inl DisposedError \<and>
   SearchEngine_indexArticles disposedSearchEngine (Some guideDocs) = Inl DisposedError \<and>
   PluginManager_processArticle disposedPluginManager (Some sampleDoc) = Inl DisposedError \<and>
   snd (PluginManager_registerPlugin disposedPluginManager (Some (samplePlugin Pending))) = Some DisposedError \<and>
   snd (PluginManager_dispose disposedPluginManager) = None"
  using disposed_operations_throw [where m = disposedArticleManager and a = "Some sampleDoc" and i = "''p1''"
      and s = disposedSearchEngine and ds = "Some guideDocs" and q = "Some ''guide''"
      and p = disposedPluginManager and plugin = "Some (samplePlugin Pending)"] disposed_samples
  by simp

text \<open>\<open>createArticleFromMarkdown\<close> and \<open>cleanup\<close> do not consult the flag.\<close>

lemma createArticleFromMarkdown_after_dispose:
  "ArticleManager_createArticleFromMarkdown disposedArticleManager ''a'' roundTripJson =
     Ok \<lparr>c_id = ''a'', c_title = ''Hello'', c_content = ''Body text'',
         c_tags = [''x'', ''y''], c_categories = [], c_keywords = None, c_draft = False,
         c_raw = roundTripJson\<rparr>"
  by code_simp

end
